theory Spec2Isabelle
  imports Complex_Main
begin

section \<open>Engine arithmetic\<close>

text \<open>
  The plugin computes in the engine's \<^verbatim>\<open>float\<close>. The embedding reads every \<^verbatim>\<open>float\<close> as a
  \<^typ>\<open>real\<close>: the arithmetic is exact, and rounding, overflow, infinities and NaN are not
  modelled. \<^verbatim>\<open>FMath::Sin\<close> is \<^const>\<open>sin\<close>, \<^verbatim>\<open>PI\<close> is \<^const>\<open>pi\<close>, \<^verbatim>\<open>FMath::Max\<close> is
  \<^const>\<open>max\<close>, and \<^verbatim>\<open>FMath::Pow\<close> with the whole exponents 12 and 20 of the source is the
  power \<open>x ^ n\<close>. The remaining helpers of \<^verbatim>\<open>FMath\<close> are engine code; they are written out
  here as the engine defines them.

  Where the code adds, subtracts or multiplies, its result is the binary32 rounding of the
  exact one, and the model computes the exact one. The statements below are therefore
  about the code's own expressions, frame by frame and operation by operation, or about
  operations that are exact in binary32 (assignments, comparisons, clamps and copies).
\<close>

definition Clamp :: "real \<Rightarrow> real \<Rightarrow> real \<Rightarrow> real" where
  "Clamp x lo hi = (if x < lo then lo else if x < hi then x else hi)"

definition Lerp :: "real \<Rightarrow> real \<Rightarrow> real \<Rightarrow> real" where
  "Lerp a b alpha = a + alpha * (b - a)"

text \<open>
  \<open>Lerp\<close> is the expression of \<^verbatim>\<open>FMath::Lerp\<close> over the reals. The code rounds each of its
  three operations, so that its value at \<open>alpha = 1\<close> is \<open>b\<close> only up to rounding.
  \<open>RoundedLerp\<close> is the same expression with the three roundings written out, the rounding
  function being a parameter; with the identity for it, it is \<open>Lerp\<close>.
\<close>

definition RoundedLerp :: "(real \<Rightarrow> real) \<Rightarrow> real \<Rightarrow> real \<Rightarrow> real \<Rightarrow> real" where
  "RoundedLerp rnd a b alpha = rnd (a + rnd (alpha * rnd (b - a)))"

definition Square :: "real \<Rightarrow> real" where
  "Square x = x * x"

text \<open>
  \<^verbatim>\<open>FMath::Fmod\<close>: the remainder of the division truncated towards zero (the sign of
  the result is the sign of \<open>x\<close>); the engine returns 0 for a divisor of magnitude at most
  \<^verbatim>\<open>1e-8\<close>.
\<close>

definition Trunc :: "real \<Rightarrow> int" where
  "Trunc q = (if 0 \<le> q then \<lfloor>q\<rfloor> else \<lceil>q\<rceil>)"

definition Fmod :: "real \<Rightarrow> real \<Rightarrow> real" where
  "Fmod x y = (if \<bar>y\<bar> \<le> 1 / 10 ^ 8 then 0 else x - y * of_int (Trunc (x / y)))"

record FVector =
  X :: real
  Y :: real
  Z :: real

definition Dist :: "FVector \<Rightarrow> FVector \<Rightarrow> real" where
  "Dist v w = sqrt (Square (X w - X v) + Square (Y w - Y v) + Square (Z w - Z v))"

text \<open>
  \<^verbatim>\<open>FLinearColor\<close> is the engine's colour with four channels. \<^verbatim>\<open>FLinearColor::Black\<close> is
  opaque black, and the operators \<^verbatim>\<open>*\<close> (by a scalar), \<^verbatim>\<open>+=\<close> and \<^verbatim>\<open>/=\<close> (by a scalar) act on
  all four channels. A division of a colour by the scalar 0 is an error of the model, so
  that its absence can be stated.
\<close>

record FLinearColor =
  R :: real
  G :: real
  B :: real
  A :: real

datatype error = DivisionByZero

definition Black :: FLinearColor where
  "Black = \<lparr>R = 0, G = 0, B = 0, A = 1\<rparr>"

definition White :: FLinearColor where
  "White = \<lparr>R = 1, G = 1, B = 1, A = 1\<rparr>"

definition ColorScale :: "FLinearColor \<Rightarrow> real \<Rightarrow> FLinearColor" where
  "ColorScale c s = \<lparr>R = R c * s, G = G c * s, B = B c * s, A = A c * s\<rparr>"

definition ColorAdd :: "FLinearColor \<Rightarrow> FLinearColor \<Rightarrow> FLinearColor" where
  "ColorAdd c d = \<lparr>R = R c + R d, G = G c + G d, B = B c + B d, A = A c + A d\<rparr>"

definition ColorDivide :: "FLinearColor \<Rightarrow> real \<Rightarrow> error + FLinearColor" where
  "ColorDivide c s =
     (if s = 0 then Inl DivisionByZero
      else Inr \<lparr>R = R c / s, G = G c / s, B = B c / s, A = A c / s\<rparr>)"

section \<open>Pattern types\<close>

datatype ELightPattern =
  Steady | Pulse | Flicker | Strobe | Candle | Fluorescent | Lightning
  | Fire | Alarm | Underwater | Heartbeat | Breathing | Custom

text \<open>
  The curve assets are engine objects. A float curve is read through \<^verbatim>\<open>GetTimeRange().Y\<close>
  and \<^verbatim>\<open>GetFloatValue\<close>, a colour curve through \<^verbatim>\<open>GetTimeRange().Y\<close> and
  \<^verbatim>\<open>GetLinearColorValue\<close>; a null pointer is \<^const>\<open>None\<close>.
\<close>

record UCurveFloat =
  FloatTimeRangeY :: real
  GetFloatValue :: "real \<Rightarrow> real"

record UCurveLinearColor =
  ColorTimeRangeY :: real
  GetLinearColorValue :: "real \<Rightarrow> FLinearColor"

record FPatternLightSettings =
  Pattern :: ELightPattern
  Speed :: real
  PhaseOffset :: real
  MinIntensity :: real
  MaxIntensity :: real
  CustomCurve :: "UCurveFloat option"
  bEnableColorShift :: bool
  ColorCurve :: "UCurveLinearColor option"

text \<open>
  Of the global configuration, the three fields that the subsystem's code reads; the
  rendering switches (PBR, SSR, volumetrics, ambient occlusion) are read nowhere.
\<close>

record FPatternLightingConfig =
  bEnabled :: bool
  GlobalIntensity :: real
  GlobalSpeed :: real

section \<open>The pattern light component\<close>

text \<open>
  The component's own fields, followed by the state of the engine's light that the
  component drives: its location (\<^verbatim>\<open>GetComponentLocation\<close>), and the intensity, colour and
  shadow flag written by \<^verbatim>\<open>SetIntensity\<close>, \<^verbatim>\<open>SetLightColor\<close> and \<^verbatim>\<open>CastShadows\<close>. The field
  \<^verbatim>\<open>SyncGroup\<close> is named \<open>LightSyncGroup\<close> here (\<^verbatim>\<open>NAME_None\<close> is \<^const>\<open>None\<close>), since the
  subsystem has an operation of the same name. \<^verbatim>\<open>ShadowSettings\<close> is read by no function
  of the component and is left out.
\<close>

record UPatternLightComponent =
  PatternSettings :: FPatternLightSettings
  BaseColor :: FLinearColor
  BaseIntensity :: real
  LightRadius :: real
  bCastPatternShadows :: bool
  LightSyncGroup :: "string option"
  CurrentTime :: real
  FlashTimer :: real
  FlashIntensityMultiplier :: real
  ComponentLocation :: FVector
  Intensity :: real
  LightColor :: FLinearColor
  CastShadows :: bool

text \<open>
  \<^verbatim>\<open>UPatternLightComponent::EvaluatePattern\<close>. \<open>PatternValue\<close> is the \<^verbatim>\<open>switch\<close>: the value
  of \<^verbatim>\<open>Value\<close> before the last assignment, starting from \<^verbatim>\<open>1.0f\<close>. \<open>EvaluatePattern\<close> maps
  it to the configured range.
\<close>

definition PatternValue :: "UPatternLightComponent \<Rightarrow> real \<Rightarrow> real" where
  "PatternValue l T =
     (case Pattern (PatternSettings l) of
        Steady \<Rightarrow> 1
      | Pulse \<Rightarrow> 0.5 + 0.5 * sin (T * 2 * pi)
      | Flicker \<Rightarrow> 0.7 + 0.3 * sin (T * 20) * sin (T * 7.3)
      | Strobe \<Rightarrow> (if sin (T * 10) > 0 then 1 else 0)
      | Candle \<Rightarrow>
          (let FlickerValue = sin (T * 12) * sin (T * 5.7) * sin (T * 3.1)
           in 0.8 + 0.2 * FlickerValue)
      | Fluorescent \<Rightarrow>
          (let Startup = Clamp (Fmod T 5 / 2) 0 1;
               Buzz = 0.05 * sin (T * 120)
           in Startup + Buzz * Startup)
      | Lightning \<Rightarrow> (max 0 (sin (T * 0.5))) ^ 20
      | Fire \<Rightarrow> 0.7 + 0.3 * sin (T * 8) * sin (T * 4.3) * sin (T * 2.1)
      | Alarm \<Rightarrow> (if sin (T * 4) > 0 then 1 else 0.2)
      | Underwater \<Rightarrow>
          (let Location = ComponentLocation l;
               Caustic = sin (X Location * 0.01 + T) * sin (Y Location * 0.01 + T * 0.7)
           in 0.7 + 0.3 * Caustic)
      | Heartbeat \<Rightarrow>
          (let Beat = sin (T * 2.5) ^ 12;
               Beat2 = sin (T * 2.5 + 0.3) ^ 12 * 0.5
           in max Beat Beat2)
      | Breathing \<Rightarrow> 0.3 + 0.7 * (sin (T * 0.5) * 0.5 + 0.5)
      | Custom \<Rightarrow>
          (case CustomCurve (PatternSettings l) of
             Some curve \<Rightarrow>
               (let CurveTime = Fmod T (FloatTimeRangeY curve)
                in GetFloatValue curve CurveTime)
           | None \<Rightarrow> 1))"

definition EvaluatePattern :: "UPatternLightComponent \<Rightarrow> real \<Rightarrow> real" where
  "EvaluatePattern l T =
     Lerp (MinIntensity (PatternSettings l)) (MaxIntensity (PatternSettings l)) (PatternValue l T)"

definition GetCurrentIntensity :: "UPatternLightComponent \<Rightarrow> real" where
  "GetCurrentIntensity l =
     (let Value = EvaluatePattern l (CurrentTime l)
      in BaseIntensity l * Value * FlashIntensityMultiplier l)"

definition GetCurrentColor :: "UPatternLightComponent \<Rightarrow> FLinearColor" where
  "GetCurrentColor l =
     (case ColorCurve (PatternSettings l) of
        Some curve \<Rightarrow>
          (if bEnableColorShift (PatternSettings l)
           then GetLinearColorValue curve (Fmod (CurrentTime l) (ColorTimeRangeY curve))
           else BaseColor l)
      | None \<Rightarrow> BaseColor l)"

definition SetPattern :: "ELightPattern \<Rightarrow> UPatternLightComponent \<Rightarrow> UPatternLightComponent" where
  "SetPattern NewPattern l = l\<lparr>PatternSettings := (PatternSettings l)\<lparr>Pattern := NewPattern\<rparr>\<rparr>"

definition SetPatternSpeed :: "real \<Rightarrow> UPatternLightComponent \<Rightarrow> UPatternLightComponent" where
  "SetPatternSpeed NewSpeed l =
     l\<lparr>PatternSettings := (PatternSettings l)\<lparr>Speed := Clamp NewSpeed 0.01 10\<rparr>\<rparr>"

definition TriggerFlash :: "real \<Rightarrow> real \<Rightarrow> UPatternLightComponent \<Rightarrow> UPatternLightComponent" where
  "TriggerFlash Duration FlashIntensity l =
     l\<lparr>FlashTimer := Duration, FlashIntensityMultiplier := FlashIntensity\<rparr>"

definition SyncWith :: "UPatternLightComponent option \<Rightarrow> UPatternLightComponent \<Rightarrow> UPatternLightComponent" where
  "SyncWith Other l =
     (case Other of
        Some other \<Rightarrow>
          l\<lparr>CurrentTime := CurrentTime other,
            PatternSettings := (PatternSettings l)\<lparr>PhaseOffset := PhaseOffset (PatternSettings other)\<rparr>\<rparr>
      | None \<Rightarrow> l)"

definition UpdateLightProperties :: "UPatternLightComponent \<Rightarrow> UPatternLightComponent" where
  "UpdateLightProperties l =
     (let NewIntensity = GetCurrentIntensity l;
          l1 = l\<lparr>Intensity := NewIntensity\<rparr>;
          NewColor = GetCurrentColor l1;
          l2 = l1\<lparr>LightColor := NewColor\<rparr>
      in if bCastPatternShadows l2 then l2\<lparr>CastShadows := True\<rparr> else l2)"

text \<open>
  \<^verbatim>\<open>TickComponent\<close>: the addition to \<^verbatim>\<open>CurrentTime\<close> and the subtraction from \<^verbatim>\<open>FlashTimer\<close>
  are the exact ones here and the rounded ones in the code; the two tests of the timer
  are the code's.
\<close>

definition TickComponent :: "real \<Rightarrow> UPatternLightComponent \<Rightarrow> UPatternLightComponent" where
  "TickComponent DeltaTime l =
     (let l1 = l\<lparr>CurrentTime := CurrentTime l + DeltaTime * Speed (PatternSettings l)\<rparr>;
          l2 = (if FlashTimer l1 > 0
                then (let l' = l1\<lparr>FlashTimer := FlashTimer l1 - DeltaTime\<rparr>
                      in if FlashTimer l' \<le> 0 then l'\<lparr>FlashIntensityMultiplier := 1\<rparr> else l')
                else l1)
      in UpdateLightProperties l2)"

text \<open>A run of frames: \<^verbatim>\<open>TickComponent\<close> once per frame, with the frames' delta times in order.\<close>

fun TickFrames :: "real list \<Rightarrow> UPatternLightComponent \<Rightarrow> UPatternLightComponent" where
  "TickFrames [] l = l"
| "TickFrames (dt # dts) l = TickFrames dts (TickComponent dt l)"

section \<open>The lighting subsystem\<close>

text \<open>
  The subsystem holds weak pointers. A pointer is a handle into the engine's object store
  \<open>LightObjects\<close>, where a destroyed component is \<^const>\<open>None\<close>; for a reflection component
  only its validity is kept. \<open>CleanupTimer\<close> is the \<^verbatim>\<open>static\<close> local of
  \<^verbatim>\<open>UPatternLightingSubsystem::Tick\<close>. An \<^verbatim>\<open>FName\<close> is a string.
\<close>

type_synonym handle = nat

record UPatternLightingSubsystem =
  GlobalConfig :: FPatternLightingConfig
  MasterTime :: real
  RegisteredLights :: "handle list"
  RegisteredReflections :: "handle list"
  SyncGroups :: "string \<Rightarrow> handle list option"
  bPaused :: bool

record World =
  LightObjects :: "handle \<Rightarrow> UPatternLightComponent option"
  ReflectionValid :: "handle \<Rightarrow> bool"
  Subsystem :: UPatternLightingSubsystem
  CleanupTimer :: real

definition IsValid :: "World \<Rightarrow> handle \<Rightarrow> bool" where
  "IsValid w h = (LightObjects w h \<noteq> None)"

definition CleanupStaleReferences :: "World \<Rightarrow> World" where
  "CleanupStaleReferences w =
     (let s = Subsystem w
      in w\<lparr>Subsystem := s
           \<lparr>RegisteredLights := filter (IsValid w) (RegisteredLights s),
            RegisteredReflections := filter (ReflectionValid w) (RegisteredReflections s),
            SyncGroups := (\<lambda>name. map_option (filter (IsValid w)) (SyncGroups s name))\<rparr>\<rparr>)"

definition Tick :: "real \<Rightarrow> World \<Rightarrow> World" where
  "Tick DeltaTime w =
     (let s = Subsystem w
      in if \<not> bEnabled (GlobalConfig s) \<or> bPaused s then w
         else
           (let w1 = w\<lparr>Subsystem :=
                        s\<lparr>MasterTime := MasterTime s + DeltaTime * GlobalSpeed (GlobalConfig s)\<rparr>\<rparr>;
                w2 = w1\<lparr>CleanupTimer := CleanupTimer w1 + DeltaTime\<rparr>
            in if CleanupTimer w2 > 5
               then (CleanupStaleReferences w2)\<lparr>CleanupTimer := 0\<rparr>
               else w2))"

text \<open>
  The engine ticks a component by itself: \<open>TickLight\<close> is \<^verbatim>\<open>TickComponent\<close> run on the
  object behind a handle.
\<close>

definition TickLight :: "handle \<Rightarrow> real \<Rightarrow> World \<Rightarrow> World" where
  "TickLight h DeltaTime w =
     (case LightObjects w h of
        None \<Rightarrow> w
      | Some Light \<Rightarrow> w\<lparr>LightObjects := (LightObjects w)(h := Some (TickComponent DeltaTime Light))\<rparr>)"

text \<open>
  \<^verbatim>\<open>RegisterLight\<close>: a null pointer is a handle without an object; \<^verbatim>\<open>FindOrAdd\<close> starts a
  group that does not exist yet from the empty array.
\<close>

definition RegisterLight :: "handle \<Rightarrow> World \<Rightarrow> World" where
  "RegisterLight h w =
     (case LightObjects w h of
        None \<Rightarrow> w
      | Some Light \<Rightarrow>
          (let s = Subsystem w
           in if h \<in> set (RegisteredLights s) then w
              else
                (let s1 = s\<lparr>RegisteredLights := RegisteredLights s @ [h]\<rparr>
                 in case LightSyncGroup Light of
                      None \<Rightarrow> w\<lparr>Subsystem := s1\<rparr>
                    | Some name \<Rightarrow>
                        w\<lparr>Subsystem := s1\<lparr>SyncGroups := (SyncGroups s1)
                            (name := Some ((case SyncGroups s1 name of
                                              None \<Rightarrow> []
                                            | Some Group \<Rightarrow> Group) @ [h]))\<rparr>\<rparr>)))"

definition GetLightsInSyncGroup :: "World \<Rightarrow> string \<Rightarrow> handle list" where
  "GetLightsInSyncGroup w GroupName =
     (case SyncGroups (Subsystem w) GroupName of
        None \<Rightarrow> []
      | Some Group \<Rightarrow> filter (IsValid w) Group)"

text \<open>
  \<^verbatim>\<open>GetCombinedIntensityAt\<close> and \<^verbatim>\<open>GetCombinedColorAt\<close>: \<open>IntensityStep\<close> and \<open>ColorStep\<close>
  are the bodies of their loops over \<^verbatim>\<open>RegisteredLights\<close>, run on the accumulators
  \<^verbatim>\<open>TotalIntensity\<close> and (\<^verbatim>\<open>TotalColor\<close>, \<^verbatim>\<open>TotalWeight\<close>).
\<close>

definition IntensityStep :: "World \<Rightarrow> FVector \<Rightarrow> handle \<Rightarrow> real \<Rightarrow> real" where
  "IntensityStep w Location h TotalIntensity =
     (case LightObjects w h of
        None \<Rightarrow> TotalIntensity
      | Some Light \<Rightarrow>
          (let Distance = Dist Location (ComponentLocation Light)
           in if Distance < LightRadius Light
              then (let Falloff = 1 - Distance / LightRadius Light;
                        Falloff2 = Square Falloff
                    in TotalIntensity + GetCurrentIntensity Light * Falloff2)
              else TotalIntensity))"

definition GetCombinedIntensityAt :: "World \<Rightarrow> FVector \<Rightarrow> real" where
  "GetCombinedIntensityAt w Location =
     (let TotalIntensity = fold (IntensityStep w Location) (RegisteredLights (Subsystem w)) 0
      in TotalIntensity * GlobalIntensity (GlobalConfig (Subsystem w)))"

definition ColorStep :: "World \<Rightarrow> FVector \<Rightarrow> handle \<Rightarrow> FLinearColor \<times> real \<Rightarrow> FLinearColor \<times> real" where
  "ColorStep w Location h acc =
     (case acc of (TotalColor, TotalWeight) \<Rightarrow>
        (case LightObjects w h of
           None \<Rightarrow> acc
         | Some Light \<Rightarrow>
             (let Distance = Dist Location (ComponentLocation Light)
              in if Distance < LightRadius Light
                 then (let Weight = (1 - Distance / LightRadius Light) * GetCurrentIntensity Light
                       in (ColorAdd TotalColor (ColorScale (GetCurrentColor Light) Weight),
                           TotalWeight + Weight))
                 else acc)))"

definition GetCombinedColorAt :: "World \<Rightarrow> FVector \<Rightarrow> error + FLinearColor" where
  "GetCombinedColorAt w Location =
     (case fold (ColorStep w Location) (RegisteredLights (Subsystem w)) (Black, 0) of
        (TotalColor, TotalWeight) \<Rightarrow>
          if TotalWeight > 0 then ColorDivide TotalColor TotalWeight else Inr TotalColor)"

definition SetGlobalIntensity :: "real \<Rightarrow> World \<Rightarrow> World" where
  "SetGlobalIntensity NewIntensity w =
     (let s = Subsystem w
      in w\<lparr>Subsystem := s\<lparr>GlobalConfig := (GlobalConfig s)\<lparr>GlobalIntensity := Clamp NewIntensity 0 2\<rparr>\<rparr>\<rparr>)"

definition SetGlobalSpeed :: "real \<Rightarrow> World \<Rightarrow> World" where
  "SetGlobalSpeed NewSpeed w =
     (let s = Subsystem w
      in w\<lparr>Subsystem := s\<lparr>GlobalConfig := (GlobalConfig s)\<lparr>GlobalSpeed := Clamp NewSpeed 0.1 5\<rparr>\<rparr>\<rparr>)"

definition PauseAll :: "World \<Rightarrow> World" where
  "PauseAll w = w\<lparr>Subsystem := (Subsystem w)\<lparr>bPaused := True\<rparr>\<rparr>"

definition ResumeAll :: "World \<Rightarrow> World" where
  "ResumeAll w = w\<lparr>Subsystem := (Subsystem w)\<lparr>bPaused := False\<rparr>\<rparr>"

text \<open>
  \<^verbatim>\<open>Lights[i]->SyncWith(Master)\<close>: both pointers are read in the store as it is at the call,
  so a handle that occurs twice, or the master's own handle, is handled as the code does.
\<close>

definition SyncWithAt :: "handle \<Rightarrow> handle \<Rightarrow> World \<Rightarrow> World" where
  "SyncWithAt Master h w =
     (case LightObjects w h of
        None \<Rightarrow> w
      | Some Light \<Rightarrow>
          w\<lparr>LightObjects := (LightObjects w)(h := Some (SyncWith (LightObjects w Master) Light))\<rparr>)"

definition SyncGroup :: "string \<Rightarrow> World \<Rightarrow> World" where
  "SyncGroup GroupName w =
     (let Lights = GetLightsInSyncGroup w GroupName
      in if length Lights > 1
         then (let Master = Lights ! 0
               in fold (SyncWithAt Master) (drop 1 Lights) w)
         else w)"


section \<open>Calls of the setters\<close>

datatype SetterCall =
  CallSetGlobalIntensity real
  | CallSetGlobalSpeed real
  | CallSetPatternSpeed handle real

fun ApplySetter :: "SetterCall \<Rightarrow> World \<Rightarrow> World" where
  "ApplySetter (CallSetGlobalIntensity x) w = SetGlobalIntensity x w"
| "ApplySetter (CallSetGlobalSpeed x) w = SetGlobalSpeed x w"
| "ApplySetter (CallSetPatternSpeed h x) w =
     (case LightObjects w h of
        None \<Rightarrow> w
      | Some Light \<Rightarrow> w\<lparr>LightObjects := (LightObjects w)(h := Some (SetPatternSpeed x Light))\<rparr>)"

definition SettingsInRange :: "World \<Rightarrow> bool" where
  "SettingsInRange w =
     (0 \<le> GlobalIntensity (GlobalConfig (Subsystem w))
      \<and> GlobalIntensity (GlobalConfig (Subsystem w)) \<le> 2
      \<and> 0.1 \<le> GlobalSpeed (GlobalConfig (Subsystem w))
      \<and> GlobalSpeed (GlobalConfig (Subsystem w)) \<le> 5
      \<and> (\<forall>h Light. LightObjects w h = Some Light \<longrightarrow>
            0.01 \<le> Speed (PatternSettings Light) \<and> Speed (PatternSettings Light) \<le> 10))"

section \<open>The specification's formulas\<close>

text \<open>
  The closed-form table of the specification, as it reads where no position and no curve
  is available: the position-independent variant for Underwater, and 0 for Custom.
\<close>

definition SpecPatternTable :: "ELightPattern \<Rightarrow> real \<Rightarrow> real" where
  "SpecPatternTable kind t =
     (case kind of
        Steady \<Rightarrow> 1
      | Pulse \<Rightarrow> 0.5 + 0.5 * sin (2 * pi * t)
      | Flicker \<Rightarrow> 0.7 + 0.3 * sin (20 * t) * sin (7.3 * t)
      | Strobe \<Rightarrow> (if sin (10 * t) > 0 then 1 else 0)
      | Candle \<Rightarrow> 0.8 + 0.2 * sin (12 * t) * sin (5.7 * t) * sin (3.1 * t)
      | Fluorescent \<Rightarrow>
          (let s = Clamp (Fmod t 5 / 2) 0 1; buzz = 0.05 * sin (120 * t) in s + buzz * s)
      | Lightning \<Rightarrow> (max 0 (sin (0.5 * t))) ^ 20
      | Fire \<Rightarrow> 0.7 + 0.3 * sin (8 * t) * sin (4.3 * t) * sin (2.1 * t)
      | Alarm \<Rightarrow> (if sin (4 * t) > 0 then 1 else 0.2)
      | Underwater \<Rightarrow> 0.7 + 0.3 * sin t * sin (0.7 * t)
      | Heartbeat \<Rightarrow> max (sin (2.5 * t) ^ 12) (0.5 * sin (2.5 * t + 0.3) ^ 12)
      | Breathing \<Rightarrow> 0.3 + 0.7 * (0.5 * sin (0.5 * t) + 0.5)
      | Custom \<Rightarrow> 0)"

text \<open>
  The spatial queries of the specification: the live registered lights, those of them
  strictly within their own radius of a point, and the weights of the two sums.
\<close>

definition LiveLights :: "World \<Rightarrow> UPatternLightComponent list" where
  "LiveLights w = List.map_filter (LightObjects w) (RegisteredLights (Subsystem w))"

definition WithinRadius :: "FVector \<Rightarrow> UPatternLightComponent \<Rightarrow> bool" where
  "WithinRadius p Light = (Dist p (ComponentLocation Light) < LightRadius Light)"

definition SpecFalloff :: "FVector \<Rightarrow> UPatternLightComponent \<Rightarrow> real" where
  "SpecFalloff p Light = 1 - Dist p (ComponentLocation Light) / LightRadius Light"

definition SpecContribution :: "FVector \<Rightarrow> UPatternLightComponent \<Rightarrow> real" where
  "SpecContribution p Light =
     (if WithinRadius p Light then GetCurrentIntensity Light * (SpecFalloff p Light)\<^sup>2 else 0)"

definition SpecColorWeight :: "FVector \<Rightarrow> UPatternLightComponent \<Rightarrow> real" where
  "SpecColorWeight p Light = SpecFalloff p Light * GetCurrentIntensity Light"

definition SpecTotalWeight :: "World \<Rightarrow> FVector \<Rightarrow> real" where
  "SpecTotalWeight w p = (\<Sum>Light\<leftarrow>filter (WithinRadius p) (LiveLights w). SpecColorWeight p Light)"

definition SpecWeightedSum :: "(FLinearColor \<Rightarrow> real) \<Rightarrow> World \<Rightarrow> FVector \<Rightarrow> real" where
  "SpecWeightedSum channel w p =
     (\<Sum>Light\<leftarrow>filter (WithinRadius p) (LiveLights w).
        channel (GetCurrentColor Light) * SpecColorWeight p Light)"

section \<open>Example objects\<close>

text \<open>The defaults of the source's declarations, used for the concrete instances below.\<close>

definition DefaultSettings :: FPatternLightSettings where
  "DefaultSettings =
     \<lparr>Pattern = Steady, Speed = 1, PhaseOffset = 0, MinIntensity = 0, MaxIntensity = 1,
      CustomCurve = None, bEnableColorShift = False, ColorCurve = None\<rparr>"

definition DefaultLight :: UPatternLightComponent where
  "DefaultLight =
     \<lparr>PatternSettings = DefaultSettings, BaseColor = White, BaseIntensity = 5000,
      LightRadius = 1000, bCastPatternShadows = True, LightSyncGroup = None, CurrentTime = 0,
      FlashTimer = 0, FlashIntensityMultiplier = 1,
      ComponentLocation = \<lparr>X = 0, Y = 0, Z = 0\<rparr>, Intensity = 5000, LightColor = White,
      CastShadows = True\<rparr>"

definition DefaultSubsystem :: UPatternLightingSubsystem where
  "DefaultSubsystem =
     \<lparr>GlobalConfig = \<lparr>bEnabled = True, GlobalIntensity = 1, GlobalSpeed = 1\<rparr>,
      MasterTime = 0, RegisteredLights = [], RegisteredReflections = [],
      SyncGroups = (\<lambda>name. None), bPaused = False\<rparr>"

definition EmptyWorld :: World where
  "EmptyWorld =
     \<lparr>LightObjects = (\<lambda>h. None), ReflectionValid = (\<lambda>h. False),
      Subsystem = DefaultSubsystem, CleanupTimer = 0\<rparr>"

text \<open>
  \<open>PlaceLight\<close> puts a component into the object store and registers it. \<open>OneLightWorld\<close>
  holds the default light, \<open>FastWorld\<close> is the same world at global speed 2, and
  \<open>HallWorld\<close> holds three lights of the sync group Hall with different phases.
\<close>

definition PlaceLight :: "handle \<Rightarrow> UPatternLightComponent \<Rightarrow> World \<Rightarrow> World" where
  "PlaceLight h Light w = RegisterLight h (w\<lparr>LightObjects := (LightObjects w)(h := Some Light)\<rparr>)"

definition OneLightWorld :: World where
  "OneLightWorld = PlaceLight 0 DefaultLight EmptyWorld"

definition FastWorld :: World where
  "FastWorld = SetGlobalSpeed 2 OneLightWorld"

definition GroupLight :: "real \<Rightarrow> real \<Rightarrow> UPatternLightComponent" where
  "GroupLight t offset =
     DefaultLight\<lparr>LightSyncGroup := Some ''Hall'', CurrentTime := t,
       PatternSettings := DefaultSettings\<lparr>PhaseOffset := offset\<rparr>\<rparr>"

definition HallWorld :: World where
  "HallWorld =
     PlaceLight 2 (GroupLight 9 0.75)
       (PlaceLight 1 (GroupLight 5 0.5) (PlaceLight 0 (GroupLight 3 0.25) EmptyWorld))"

text \<open>
  Lights for the spatial queries, seen from the origin: \<open>RimLight\<close> lies exactly at its
  radius, \<open>TwoLightWorld\<close> holds a white and a red light of equal weight, and in
  \<open>OpposedWorld\<close> the red light has been flashed with the multiplier \<open>- 1\<close>. The one light
  of \<open>DarkWorld\<close> has been flashed with the multiplier 0.
  \<open>ExactPulse\<close> is a Pulse light whose minimum intensity lies above its maximum.
\<close>

definition Origin :: FVector where
  "Origin = \<lparr>X = 0, Y = 0, Z = 0\<rparr>"

definition Red :: FLinearColor where
  "Red = \<lparr>R = 1, G = 0, B = 0, A = 1\<rparr>"

definition RimLight :: UPatternLightComponent where
  "RimLight = DefaultLight\<lparr>ComponentLocation := \<lparr>X = 1000, Y = 0, Z = 0\<rparr>\<rparr>"

definition RimWorld :: World where
  "RimWorld = PlaceLight 0 RimLight EmptyWorld"

definition TwoLightWorld :: World where
  "TwoLightWorld = PlaceLight 1 (DefaultLight\<lparr>BaseColor := Red\<rparr>) OneLightWorld"

definition OpposedWorld :: World where
  "OpposedWorld =
     PlaceLight 1 (TriggerFlash 1 (-1) (DefaultLight\<lparr>BaseColor := Red\<rparr>)) OneLightWorld"

definition DarkWorld :: World where
  "DarkWorld = PlaceLight 0 (TriggerFlash 1 0 DefaultLight) EmptyWorld"

definition ExactPulse :: UPatternLightComponent where
  "ExactPulse =
     DefaultLight\<lparr>PatternSettings :=
       DefaultSettings\<lparr>Pattern := Pulse, MinIntensity := 0.75, MaxIntensity := 0.25\<rparr>\<rparr>"

text \<open>A rounding function for the instances of \<open>RoundedLerp\<close>: to the nearest eighth.\<close>

definition RoundToEighths :: "real \<Rightarrow> real" where
  "RoundToEighths x = of_int (round (x * 8)) / 8"

text \<open>A light whose phase time and phase offset are those of the component \<open>m\<close>.\<close>

definition SyncedTo :: "UPatternLightComponent \<Rightarrow> World \<Rightarrow> handle \<Rightarrow> bool" where
  "SyncedTo m w h =
     (case LightObjects w h of
        None \<Rightarrow> False
      | Some Light \<Rightarrow>
          CurrentTime Light = CurrentTime m
          \<and> PhaseOffset (PatternSettings Light) = PhaseOffset (PatternSettings m))"

section \<open>The flash overlay\<close>

lemma FlashTimer_TickComponent:
  "FlashTimer (TickComponent dt l) = (if FlashTimer l > 0 then FlashTimer l - dt else FlashTimer l)"
  by (simp add: TickComponent_def UpdateLightProperties_def Let_def)

lemma FlashIntensityMultiplier_TickComponent:
  "FlashIntensityMultiplier (TickComponent dt l) =
     (if FlashTimer l > 0 \<and> FlashTimer l - dt \<le> 0 then 1 else FlashIntensityMultiplier l)"
  by (simp add: TickComponent_def UpdateLightProperties_def Let_def)

lemma TickFrames_expired:
  "FlashTimer l \<le> 0 \<Longrightarrow>
     FlashTimer (TickFrames dts l) = FlashTimer l
     \<and> FlashIntensityMultiplier (TickFrames dts l) = FlashIntensityMultiplier l"
proof (induction dts arbitrary: l)
  case Nil
  show ?case by simp
next
  case (Cons dt dts)
  have t: "FlashTimer (TickComponent dt l) = FlashTimer l"
    using Cons.prems by (simp add: FlashTimer_TickComponent)
  have m: "FlashIntensityMultiplier (TickComponent dt l) = FlashIntensityMultiplier l"
    using Cons.prems by (simp add: FlashIntensityMultiplier_TickComponent)
  from Cons.IH [of "TickComponent dt l"] t m Cons.prems show ?case by simp
qed

text \<open>
  Claim C6. \<^verbatim>\<open>TriggerFlash(duration, multiplier)\<close> sets the flash timer to the duration and
  the flash multiplier to the multiplier, whatever an earlier trigger left behind (a new
  trigger overwrites, it does not queue). A tick with a positive timer takes the frame's
  delta time off the timer and sets the multiplier to 1 once the timer is at or below 0.
  After \<^verbatim>\<open>TriggerFlash(0.1, 10)\<close> the multiplier is still 10 after a frame of 0.05 seconds,
  and 1 after a further frame of 0.06 seconds.
\<close>

theorem TriggerFlash_one_shot:
  "FlashTimer (TriggerFlash Duration m l) = Duration
   \<and> FlashIntensityMultiplier (TriggerFlash Duration m l) = m
   \<and> TriggerFlash Duration m (TriggerFlash d0 m0 l) = TriggerFlash Duration m l
   \<and> (0 < FlashTimer l \<longrightarrow>
        FlashTimer (TickComponent dt l) = FlashTimer l - dt
        \<and> FlashIntensityMultiplier (TickComponent dt l) =
            (if FlashTimer l - dt \<le> 0 then 1 else FlashIntensityMultiplier l))
   \<and> FlashIntensityMultiplier (TickFrames [0.05] (TriggerFlash 0.1 10 l)) = 10
   \<and> FlashIntensityMultiplier (TickFrames [0.05, 0.06] (TriggerFlash 0.1 10 l)) = 1"
  by (simp add: TriggerFlash_def FlashTimer_TickComponent FlashIntensityMultiplier_TickComponent)

theorem TriggerFlash_one_shot_witness:
  "0 < FlashTimer (TriggerFlash 0.5 10 DefaultLight)
   \<and> FlashTimer (TickComponent 0.25 (TriggerFlash 0.5 10 DefaultLight)) = 0.25
   \<and> FlashIntensityMultiplier (TickComponent 0.25 (TriggerFlash 0.5 10 DefaultLight)) = 10
   \<and> 0 < FlashTimer (TickComponent 0.25 (TriggerFlash 0.5 10 DefaultLight))
   \<and> FlashTimer (TickComponent 0.25 (TickComponent 0.25 (TriggerFlash 0.5 10 DefaultLight))) = 0
   \<and> FlashIntensityMultiplier (TickComponent 0.25 (TickComponent 0.25 (TriggerFlash 0.5 10 DefaultLight))) = 1"
  using TriggerFlash_one_shot [of "0.5" 10 DefaultLight 0 0 "0.25"]
        TriggerFlash_one_shot [of "0.5" 10 "TriggerFlash 0.5 10 DefaultLight" 0 0 "0.25"]
        TriggerFlash_one_shot [of "0.5" 10 "TickComponent 0.25 (TriggerFlash 0.5 10 DefaultLight)" 0 0 "0.25"]
  by simp

text \<open>
  Claim C10. After \<^verbatim>\<open>TriggerFlash\<close> with a duration at or below 0 and a multiplier \<open>m\<close>, the
  flash multiplier is \<open>m\<close> and stays \<open>m\<close> through every run of ticks, whatever their delta
  times: the timer is never positive, so the reset is never reached.
\<close>

theorem TriggerFlash_nonpositive_persists:
  "Duration \<le> 0 \<Longrightarrow>
     FlashIntensityMultiplier (TriggerFlash Duration m l) = m
     \<and> FlashIntensityMultiplier (TickFrames dts (TriggerFlash Duration m l)) = m
     \<and> FlashTimer (TickFrames dts (TriggerFlash Duration m l)) = Duration"
  using TickFrames_expired [of "TriggerFlash Duration m l" dts]
  by (simp add: TriggerFlash_def)

theorem TriggerFlash_nonpositive_persists_witness:
  "(-1::real) \<le> 0
   \<and> FlashIntensityMultiplier (TickFrames [1, 2, 100] (TriggerFlash (-1) 10 DefaultLight)) = 10"
  using TriggerFlash_nonpositive_persists [of "-1" 10 DefaultLight "[1, 2, 100]"] by simp

section \<open>The pattern evaluator\<close>

text \<open>
  Claim C8, as the code has it. With the Custom pattern and no custom curve, \<^verbatim>\<open>Value\<close> keeps
  its initial \<^verbatim>\<open>1.0f\<close>: the raw value is 1 at every time, and the configured result is
  \<open>lerp(minIntensity, maxIntensity, 1)\<close>, the upper end of the interpolation and not the
  minimum intensity.
\<close>

theorem Custom_without_curve_raw_one:
  "Pattern (PatternSettings l) = Custom \<Longrightarrow> CustomCurve (PatternSettings l) = None \<Longrightarrow>
     PatternValue l T = 1
     \<and> EvaluatePattern l T
         = Lerp (MinIntensity (PatternSettings l)) (MaxIntensity (PatternSettings l)) 1"
  by (simp add: PatternValue_def EvaluatePattern_def)

theorem Custom_without_curve_raw_one_witness:
  "Pattern (PatternSettings (SetPattern Custom DefaultLight)) = Custom
   \<and> CustomCurve (PatternSettings (SetPattern Custom DefaultLight)) = None
   \<and> PatternValue (SetPattern Custom DefaultLight) 3 = 1
   \<and> EvaluatePattern (SetPattern Custom DefaultLight) 3 = 1"
  using Custom_without_curve_raw_one [of "SetPattern Custom DefaultLight" 3]
  by (simp add: SetPattern_def DefaultLight_def DefaultSettings_def Lerp_def)

text \<open>
  Claim C8, as stated, fails: for the default light switched to Custom (no curve, minimum
  0, maximum 1) the raw value at time 0 is not 0 and the result is not the minimum.
\<close>

theorem Custom_without_curve_not_min:
  "PatternValue (SetPattern Custom DefaultLight) 0 \<noteq> 0
   \<and> EvaluatePattern (SetPattern Custom DefaultLight) 0
       \<noteq> MinIntensity (PatternSettings (SetPattern Custom DefaultLight))"
  by (simp add: PatternValue_def EvaluatePattern_def Lerp_def SetPattern_def DefaultLight_def
      DefaultSettings_def)

section \<open>The setters\<close>

lemma Clamp_range:
  "lo \<le> hi \<Longrightarrow> lo \<le> Clamp x lo hi \<and> Clamp x lo hi \<le> hi \<and> Clamp x lo hi = max lo (min x hi)"
  by (auto simp: Clamp_def)

lemma ApplySetter_range: "SettingsInRange w \<Longrightarrow> SettingsInRange (ApplySetter c w)"
proof (cases c)
  case (CallSetGlobalIntensity x)
  then show "SettingsInRange w \<Longrightarrow> ?thesis" using Clamp_range [of 0 2 x]
    by (simp add: SettingsInRange_def SetGlobalIntensity_def Let_def)
next
  case (CallSetGlobalSpeed x)
  then show "SettingsInRange w \<Longrightarrow> ?thesis" using Clamp_range [of "0.1" 5 x]
    by (simp add: SettingsInRange_def SetGlobalSpeed_def Let_def)
next
  case (CallSetPatternSpeed h x)
  then show "SettingsInRange w \<Longrightarrow> ?thesis" using Clamp_range [of "0.01" 10 x]
    by (auto simp: SettingsInRange_def SetPatternSpeed_def split: option.splits)
qed

lemma fold_ApplySetter_range: "SettingsInRange w \<Longrightarrow> SettingsInRange (fold ApplySetter calls w)"
  by (induction calls arbitrary: w) (simp_all add: ApplySetter_range)

lemma OneLightWorld_simps:
  "LightObjects OneLightWorld = (\<lambda>h. None)(0 := Some DefaultLight)"
  "RegisteredLights (Subsystem OneLightWorld) = [0]"
  "GlobalConfig (Subsystem OneLightWorld) = \<lparr>bEnabled = True, GlobalIntensity = 1, GlobalSpeed = 1\<rparr>"
  "bPaused (Subsystem OneLightWorld) = False"
  "MasterTime (Subsystem OneLightWorld) = 0"
  by (simp_all add: OneLightWorld_def PlaceLight_def RegisterLight_def EmptyWorld_def
      DefaultSubsystem_def DefaultLight_def Let_def)

lemma OneLightWorld_in_range: "SettingsInRange OneLightWorld"
  by (simp add: SettingsInRange_def OneLightWorld_simps DefaultLight_def DefaultSettings_def)

text \<open>
  Claim C9. \<^verbatim>\<open>SetGlobalIntensity\<close> stores its argument clamped into [0, 2],
  \<^verbatim>\<open>SetGlobalSpeed\<close> into [0.1, 5] and \<^verbatim>\<open>SetPatternSpeed\<close> into [0.01, 10], for every
  argument; no call is rejected. So a world whose three settings are within their ranges
  keeps them there through every sequence of setter calls.
\<close>

theorem setters_clamp:
  "GlobalIntensity (GlobalConfig (Subsystem (SetGlobalIntensity x w))) = max 0 (min x 2)
   \<and> 0 \<le> GlobalIntensity (GlobalConfig (Subsystem (SetGlobalIntensity x w)))
   \<and> GlobalIntensity (GlobalConfig (Subsystem (SetGlobalIntensity x w))) \<le> 2
   \<and> GlobalSpeed (GlobalConfig (Subsystem (SetGlobalSpeed x w))) = max 0.1 (min x 5)
   \<and> 0.1 \<le> GlobalSpeed (GlobalConfig (Subsystem (SetGlobalSpeed x w)))
   \<and> GlobalSpeed (GlobalConfig (Subsystem (SetGlobalSpeed x w))) \<le> 5
   \<and> Speed (PatternSettings (SetPatternSpeed x l)) = max 0.01 (min x 10)
   \<and> 0.01 \<le> Speed (PatternSettings (SetPatternSpeed x l))
   \<and> Speed (PatternSettings (SetPatternSpeed x l)) \<le> 10
   \<and> (SettingsInRange w \<longrightarrow> SettingsInRange (fold ApplySetter calls w))"
  using Clamp_range [of 0 2 x] Clamp_range [of "0.1" 5 x] Clamp_range [of "0.01" 10 x]
    fold_ApplySetter_range [of w calls]
  by (simp add: SetGlobalIntensity_def SetGlobalSpeed_def SetPatternSpeed_def Let_def)

theorem setters_clamp_witness:
  "SettingsInRange OneLightWorld
   \<and> SettingsInRange
        (fold ApplySetter
           [CallSetGlobalIntensity 7, CallSetPatternSpeed 0 (-3), CallSetGlobalSpeed 0]
           OneLightWorld)
   \<and> GlobalIntensity (GlobalConfig (Subsystem
        (fold ApplySetter
           [CallSetGlobalIntensity 7, CallSetPatternSpeed 0 (-3), CallSetGlobalSpeed 0]
           OneLightWorld))) = 2"
  using setters_clamp [of 7 OneLightWorld DefaultLight
      "[CallSetGlobalIntensity 7, CallSetPatternSpeed 0 (-3), CallSetGlobalSpeed 0]"]
    OneLightWorld_in_range
  by (simp add: OneLightWorld_simps SetGlobalIntensity_def SetGlobalSpeed_def Let_def Clamp_def)

section \<open>The master clock and the lights' phase time\<close>

lemma LightObjects_CleanupStaleReferences:
  "LightObjects (CleanupStaleReferences w) = LightObjects w"
  by (simp add: CleanupStaleReferences_def Let_def)

lemma LightObjects_Tick: "LightObjects (Tick dt w) = LightObjects w"
  by (simp add: Tick_def Let_def LightObjects_CleanupStaleReferences)

lemma FastWorld_simps:
  "LightObjects FastWorld = (\<lambda>h. None)(0 := Some DefaultLight)"
  "GlobalConfig (Subsystem FastWorld) = \<lparr>bEnabled = True, GlobalIntensity = 1, GlobalSpeed = 2\<rparr>"
  "bPaused (Subsystem FastWorld) = False"
  "MasterTime (Subsystem FastWorld) = 0"
  by (simp_all add: FastWorld_def SetGlobalSpeed_def Let_def OneLightWorld_simps Clamp_def)

text \<open>
  Claim C1: with the system enabled and not paused, a tick of \<open>dt\<close> advances the master time
  by \<open>dt \<times> globalSpeed\<close> and every registered light's phase time by
  \<open>dt \<times> speed \<times> globalSpeed\<close>, and a disabled or paused system advances nothing. The code
  at a failing input: \<open>FastWorld\<close> is enabled and not paused, its global speed is 2, and its
  one registered light has speed 1 and phase time 0, so that the claim puts the phase
  time after a frame of \<open>dt = 1\<close> at 2. The subsystem's \<^verbatim>\<open>Tick(1)\<close> advances the master time
  to 2 and leaves the light at 0; the frame's \<^verbatim>\<open>TickComponent(1)\<close> brings the light to 1,
  not 2; and after \<^verbatim>\<open>PauseAll\<close> the same frame still brings it to 1.
\<close>

theorem Tick_ignores_global_speed_and_pause:
  "bEnabled (GlobalConfig (Subsystem FastWorld)) \<and> \<not> bPaused (Subsystem FastWorld)
   \<and> GlobalSpeed (GlobalConfig (Subsystem FastWorld)) = 2
   \<and> LightObjects FastWorld 0 = Some DefaultLight
   \<and> Speed (PatternSettings DefaultLight) = 1 \<and> CurrentTime DefaultLight = 0
   \<and> MasterTime (Subsystem (Tick 1 FastWorld)) = 2
   \<and> map_option CurrentTime (LightObjects (Tick 1 FastWorld) 0) = Some 0
   \<and> map_option CurrentTime (LightObjects (TickLight 0 1 (Tick 1 FastWorld)) 0) = Some 1
   \<and> map_option CurrentTime (LightObjects (TickLight 0 1 (Tick 1 FastWorld)) 0) \<noteq> Some 2
   \<and> bPaused (Subsystem (PauseAll FastWorld))
   \<and> map_option CurrentTime (LightObjects (TickLight 0 1 (Tick 1 (PauseAll FastWorld))) 0) = Some 1"
proof -
  have cfg: "bEnabled (GlobalConfig (Subsystem FastWorld))" "\<not> bPaused (Subsystem FastWorld)"
    "GlobalSpeed (GlobalConfig (Subsystem FastWorld)) = 2"
    "LightObjects FastWorld 0 = Some DefaultLight"
    "Speed (PatternSettings DefaultLight) = 1" "CurrentTime DefaultLight = 0"
    by (simp_all add: FastWorld_simps DefaultLight_def DefaultSettings_def)
  have master: "MasterTime (Subsystem (Tick 1 FastWorld)) = 2"
    by (simp add: Tick_def Let_def FastWorld_simps FastWorld_def SetGlobalSpeed_def
        OneLightWorld_def PlaceLight_def RegisterLight_def EmptyWorld_def DefaultSubsystem_def
        DefaultLight_def Clamp_def)
  have step: "CurrentTime (TickComponent 1 DefaultLight) = 1"
    by (simp add: TickComponent_def UpdateLightProperties_def Let_def DefaultLight_def
        DefaultSettings_def)
  have still: "map_option CurrentTime (LightObjects (Tick 1 FastWorld) 0) = Some 0"
    by (simp add: LightObjects_Tick cfg)
  have frame: "map_option CurrentTime (LightObjects (TickLight 0 1 (Tick 1 FastWorld)) 0) = Some 1"
    by (simp add: TickLight_def LightObjects_Tick cfg step)
  have paused: "bPaused (Subsystem (PauseAll FastWorld))"
    "map_option CurrentTime (LightObjects (TickLight 0 1 (Tick 1 (PauseAll FastWorld))) 0) = Some 1"
    by (simp_all add: PauseAll_def TickLight_def LightObjects_Tick cfg step)
  have differs: "map_option CurrentTime (LightObjects (TickLight 0 1 (Tick 1 FastWorld)) 0) \<noteq> Some 2"
    unfolding frame by simp
  from cfg master still frame differs paused show ?thesis by blast
qed

theorem Tick_ignores_global_speed_and_pause_witness:
  "map_option CurrentTime (LightObjects (TickLight 0 1 (Tick 1 FastWorld)) 0) = Some 1
   \<and> MasterTime (Subsystem (Tick 1 FastWorld)) = 2"
  using Tick_ignores_global_speed_and_pause by blast

section \<open>Sync groups\<close>

lemma SyncWith_self: "SyncWith (Some m) m = m"
  by (simp add: SyncWith_def)

lemma SyncWithAt_master:
  "LightObjects w M = Some m \<Longrightarrow> LightObjects (SyncWithAt M h w) M = Some m"
  by (auto simp: SyncWithAt_def SyncWith_self split: option.splits)

lemma SyncWithAt_live: "IsValid (SyncWithAt M h w) x = IsValid w x"
  by (simp add: SyncWithAt_def IsValid_def split: option.splits)

lemma SyncWithAt_Subsystem: "Subsystem (SyncWithAt M h w) = Subsystem w"
  by (simp add: SyncWithAt_def split: option.splits)

lemma SyncWithAt_synced:
  "LightObjects w M = Some m \<Longrightarrow> IsValid w h \<Longrightarrow> SyncedTo m (SyncWithAt M h w) h"
  by (auto simp: SyncWithAt_def SyncedTo_def SyncWith_def IsValid_def split: option.splits)

lemma SyncWithAt_keeps_synced:
  "LightObjects w M = Some m \<Longrightarrow> SyncedTo m w x \<Longrightarrow> SyncedTo m (SyncWithAt M h w) x"
  by (auto simp: SyncWithAt_def SyncedTo_def SyncWith_def split: option.splits)

lemma fold_SyncWithAt_frame:
  "LightObjects w M = Some m \<Longrightarrow>
     LightObjects (fold (SyncWithAt M) hs w) M = Some m
     \<and> Subsystem (fold (SyncWithAt M) hs w) = Subsystem w
     \<and> (\<forall>x. IsValid (fold (SyncWithAt M) hs w) x = IsValid w x)
     \<and> (\<forall>x. SyncedTo m w x \<longrightarrow> SyncedTo m (fold (SyncWithAt M) hs w) x)"
proof (induction hs arbitrary: w)
  case Nil
  then show ?case by simp
next
  case (Cons h hs)
  let ?w = "SyncWithAt M h w"
  have m: "LightObjects ?w M = Some m" using Cons.prems by (rule SyncWithAt_master)
  from Cons.IH [OF m] Cons.prems show ?case
    by (simp add: SyncWithAt_Subsystem SyncWithAt_live SyncWithAt_keeps_synced)
qed

lemma fold_SyncWithAt_synced:
  "LightObjects w M = Some m \<Longrightarrow> \<forall>h \<in> set hs. IsValid w h \<Longrightarrow> x \<in> set hs \<Longrightarrow>
     SyncedTo m (fold (SyncWithAt M) hs w) x"
proof (induction hs arbitrary: w)
  case Nil
  then show ?case by simp
next
  case (Cons h hs)
  let ?w = "SyncWithAt M h w"
  have m: "LightObjects ?w M = Some m" using Cons.prems(1) by (rule SyncWithAt_master)
  have live: "\<forall>h \<in> set hs. IsValid ?w h" using Cons.prems(2) by (simp add: SyncWithAt_live)
  show ?case
  proof (cases "x \<in> set hs")
    case True
    from Cons.IH [OF m live True] show ?thesis by simp
  next
    case False
    then have "x = h" using Cons.prems(3) by simp
    then have "SyncedTo m ?w x" using Cons.prems(1,2) by (simp add: SyncWithAt_synced)
    with fold_SyncWithAt_frame [OF m, of hs] show ?thesis by simp
  qed
qed

lemma GetLightsInSyncGroup_live: "h \<in> set (GetLightsInSyncGroup w g) \<Longrightarrow> IsValid w h"
  by (auto simp: GetLightsInSyncGroup_def split: option.splits)

lemma HallWorld_members: "GetLightsInSyncGroup HallWorld ''Hall'' = [0, 1, 2]"
  by (simp add: HallWorld_def PlaceLight_def RegisterLight_def GroupLight_def EmptyWorld_def
      DefaultSubsystem_def DefaultLight_def Let_def GetLightsInSyncGroup_def IsValid_def)

lemma HallWorld_objects:
  "LightObjects HallWorld 0 = Some (GroupLight 3 0.25)"
  "LightObjects HallWorld 1 = Some (GroupLight 5 0.5)"
  "LightObjects HallWorld (Suc 0) = Some (GroupLight 5 0.5)"
  "LightObjects HallWorld 2 = Some (GroupLight 9 0.75)"
  by (simp_all add: HallWorld_def PlaceLight_def RegisterLight_def GroupLight_def EmptyWorld_def
      DefaultSubsystem_def DefaultLight_def Let_def)

text \<open>
  Claim C7. When the group \<open>g\<close> has at least two live members, then after \<^verbatim>\<open>SyncGroup(g)\<close>
  every live member of the group has the phase time and the phase offset that the first
  live member had before the call; the first member is the master and its component is
  unchanged, and the group has the same live members as before. (A handle that occurs
  twice in the group, the master's included, does not change this.)
\<close>

theorem SyncGroup_copies_master:
  assumes len: "1 < length (GetLightsInSyncGroup w g)"
    and mem: "h \<in> set (GetLightsInSyncGroup w g)"
  shows "\<exists>m Light.
           LightObjects w (GetLightsInSyncGroup w g ! 0) = Some m
           \<and> LightObjects (SyncGroup g w) (GetLightsInSyncGroup w g ! 0) = Some m
           \<and> LightObjects (SyncGroup g w) h = Some Light
           \<and> CurrentTime Light = CurrentTime m
           \<and> PhaseOffset (PatternSettings Light) = PhaseOffset (PatternSettings m)
           \<and> GetLightsInSyncGroup (SyncGroup g w) g = GetLightsInSyncGroup w g"
proof -
  obtain M rest where split: "GetLightsInSyncGroup w g = M # rest"
    using len by (cases "GetLightsInSyncGroup w g") auto
  have "IsValid w M" using split GetLightsInSyncGroup_live [of M w g] by simp
  then obtain m where m: "LightObjects w M = Some m" by (auto simp: IsValid_def)
  have live: "\<forall>h \<in> set rest. IsValid w h"
    using split GetLightsInSyncGroup_live [of _ w g] by simp
  have run: "SyncGroup g w = fold (SyncWithAt M) rest w"
    using len split by (simp add: SyncGroup_def Let_def)
  note frame = fold_SyncWithAt_frame [OF m, of rest]
  have master: "LightObjects (SyncGroup g w) M = Some m" using frame run by simp
  have synced: "SyncedTo m (SyncGroup g w) h"
  proof (cases "h \<in> set rest")
    case True
    from fold_SyncWithAt_synced [OF m live True] run show ?thesis by simp
  next
    case False
    then have "h = M" using mem split by simp
    then show ?thesis using master by (simp add: SyncedTo_def)
  qed
  then obtain Light where light: "LightObjects (SyncGroup g w) h = Some Light"
    "CurrentTime Light = CurrentTime m"
    "PhaseOffset (PatternSettings Light) = PhaseOffset (PatternSettings m)"
    by (auto simp: SyncedTo_def split: option.splits)
  have "filter (IsValid (SyncGroup g w)) xs = filter (IsValid w) xs" for xs
    using frame run by (simp cong: filter_cong)
  then have members: "GetLightsInSyncGroup (SyncGroup g w) g = GetLightsInSyncGroup w g"
    using frame run by (simp add: GetLightsInSyncGroup_def split: option.splits)
  from m master light members split show ?thesis by simp
qed

theorem SyncGroup_copies_master_witness:
  "1 < length (GetLightsInSyncGroup HallWorld ''Hall'')
   \<and> 1 \<in> set (GetLightsInSyncGroup HallWorld ''Hall'')
   \<and> 2 \<in> set (GetLightsInSyncGroup HallWorld ''Hall'')
   \<and> LightObjects HallWorld 1 = Some (GroupLight 5 0.5)
   \<and> LightObjects HallWorld 2 = Some (GroupLight 9 0.75)
   \<and> map_option CurrentTime (LightObjects (SyncGroup ''Hall'' HallWorld) 1) = Some 3
   \<and> map_option CurrentTime (LightObjects (SyncGroup ''Hall'' HallWorld) 2) = Some 3
   \<and> map_option (\<lambda>Light. PhaseOffset (PatternSettings Light))
        (LightObjects (SyncGroup ''Hall'' HallWorld) 1) = Some 0.25
   \<and> map_option (\<lambda>Light. PhaseOffset (PatternSettings Light))
        (LightObjects (SyncGroup ''Hall'' HallWorld) 2) = Some 0.25
   \<and> LightObjects (SyncGroup ''Hall'' HallWorld) 0 = Some (GroupLight 3 0.25)"
  using SyncGroup_copies_master [of HallWorld "''Hall''" 1]
    SyncGroup_copies_master [of HallWorld "''Hall''" 2]
  by (auto simp: HallWorld_members HallWorld_objects GroupLight_def DefaultSettings_def)

section \<open>The spatial queries\<close>

lemma fold_IntensityStep:
  "fold (IntensityStep w p) hs acc
     = acc + (\<Sum>Light\<leftarrow>List.map_filter (LightObjects w) hs. SpecContribution p Light)"
proof (induction hs arbitrary: acc)
  case Nil
  show ?case by (simp add: map_filter_simps)
next
  case (Cons h hs)
  show ?case
  proof (cases "LightObjects w h")
    case None
    then show ?thesis using Cons.IH [of acc] by (simp add: map_filter_simps IntensityStep_def)
  next
    case (Some Light)
    have step: "IntensityStep w p h acc = acc + SpecContribution p Light"
      using Some
      by (simp add: IntensityStep_def SpecContribution_def WithinRadius_def SpecFalloff_def
          Square_def Let_def power2_eq_square)
    show ?thesis using Some Cons.IH [of "acc + SpecContribution p Light"]
      by (simp add: map_filter_simps step)
  qed
qed

lemma sum_SpecContribution:
  "(\<Sum>Light\<leftarrow>ls. SpecContribution p Light)
     = (\<Sum>Light\<leftarrow>filter (WithinRadius p) ls. GetCurrentIntensity Light * (SpecFalloff p Light)\<^sup>2)"
  by (induction ls) (simp_all add: SpecContribution_def)

lemma Dist_self: "Dist p p = 0"
  by (simp add: Dist_def Square_def)

lemma DefaultLight_intensity: "GetCurrentIntensity DefaultLight = 5000"
  by (simp add: GetCurrentIntensity_def EvaluatePattern_def PatternValue_def Lerp_def
      DefaultLight_def DefaultSettings_def)

lemma Dist_RimLight: "Dist Origin (ComponentLocation RimLight) = 1000"
proof -
  have "sqrt (1000 * 1000) = \<bar>1000::real\<bar>" by (rule real_sqrt_abs2)
  then show ?thesis by (simp add: Dist_def Square_def Origin_def RimLight_def DefaultLight_def)
qed

lemma RimWorld_simps:
  "LiveLights RimWorld = [RimLight]"
  "GlobalIntensity (GlobalConfig (Subsystem RimWorld)) = 1"
  by (simp_all add: RimWorld_def PlaceLight_def RegisterLight_def EmptyWorld_def
      DefaultSubsystem_def RimLight_def DefaultLight_def Let_def LiveLights_def)

lemma OneLightWorld_live: "LiveLights OneLightWorld = [DefaultLight]"
  by (simp add: LiveLights_def OneLightWorld_simps)

text \<open>
  Claim C4. For every world and query point, \<^verbatim>\<open>GetCombinedIntensityAt\<close> is the global
  intensity times the sum, over the live registered lights strictly within their own
  radius of the point, of the light's current intensity times \<open>(1 - distance / radius)\<^sup>2\<close>.
  A light at a distance equal to its radius adds nothing to the running total, a light of
  positive radius at distance 0 adds its full current intensity, and without a live
  registered light the result is 0.
\<close>

theorem GetCombinedIntensityAt_falloff_sum:
  "GetCombinedIntensityAt w p
     = GlobalIntensity (GlobalConfig (Subsystem w))
       * (\<Sum>Light\<leftarrow>filter (WithinRadius p) (LiveLights w).
            GetCurrentIntensity Light * (1 - Dist p (ComponentLocation Light) / LightRadius Light)\<^sup>2)
   \<and> (LightObjects w h = Some l \<and> Dist p (ComponentLocation l) = LightRadius l \<longrightarrow>
        IntensityStep w p h acc = acc)
   \<and> (LightObjects w h = Some l \<and> Dist p (ComponentLocation l) = 0 \<and> 0 < LightRadius l \<longrightarrow>
        IntensityStep w p h acc = acc + GetCurrentIntensity l)
   \<and> (LiveLights w = [] \<longrightarrow> GetCombinedIntensityAt w p = 0)"
proof -
  have total: "GetCombinedIntensityAt w p
     = GlobalIntensity (GlobalConfig (Subsystem w)) * (\<Sum>Light\<leftarrow>LiveLights w. SpecContribution p Light)"
    by (simp add: GetCombinedIntensityAt_def fold_IntensityStep LiveLights_def)
  have filtered: "GetCombinedIntensityAt w p
     = GlobalIntensity (GlobalConfig (Subsystem w))
       * (\<Sum>Light\<leftarrow>filter (WithinRadius p) (LiveLights w).
            GetCurrentIntensity Light * (1 - Dist p (ComponentLocation Light) / LightRadius Light)\<^sup>2)"
    using total sum_SpecContribution [of p "LiveLights w"] by (simp add: SpecFalloff_def)
  have rim: "LightObjects w h = Some l \<and> Dist p (ComponentLocation l) = LightRadius l \<longrightarrow>
        IntensityStep w p h acc = acc"
    by (simp add: IntensityStep_def)
  have centre: "LightObjects w h = Some l \<and> Dist p (ComponentLocation l) = 0 \<and> 0 < LightRadius l \<longrightarrow>
        IntensityStep w p h acc = acc + GetCurrentIntensity l"
    by (simp add: IntensityStep_def Square_def)
  have none: "LiveLights w = [] \<longrightarrow> GetCombinedIntensityAt w p = 0"
    using total by simp
  from filtered rim centre none show ?thesis by blast
qed

theorem GetCombinedIntensityAt_falloff_sum_witness:
  "LightObjects RimWorld 0 = Some RimLight
   \<and> Dist Origin (ComponentLocation RimLight) = LightRadius RimLight
   \<and> IntensityStep RimWorld Origin 0 7 = 7
   \<and> GetCombinedIntensityAt RimWorld Origin = 0
   \<and> LightObjects OneLightWorld 0 = Some DefaultLight
   \<and> Dist Origin (ComponentLocation DefaultLight) = 0 \<and> 0 < LightRadius DefaultLight
   \<and> IntensityStep OneLightWorld Origin 0 7 = 5007
   \<and> GetCombinedIntensityAt OneLightWorld Origin = 5000
   \<and> LiveLights EmptyWorld = []
   \<and> GetCombinedIntensityAt EmptyWorld Origin = 0"
proof -
  have rim: "LightObjects RimWorld 0 = Some RimLight"
    "Dist Origin (ComponentLocation RimLight) = LightRadius RimLight"
    "\<not> WithinRadius Origin RimLight"
    by (simp_all add: Dist_RimLight WithinRadius_def)
      (simp_all add: RimWorld_def PlaceLight_def RegisterLight_def RimLight_def DefaultLight_def
        Let_def)
  have centre: "LightObjects OneLightWorld 0 = Some DefaultLight"
    "Dist Origin (ComponentLocation DefaultLight) = 0" "0 < LightRadius DefaultLight"
    using Dist_self [of Origin] by (simp_all add: OneLightWorld_simps) (simp_all add: DefaultLight_def Origin_def)
  have within: "WithinRadius Origin DefaultLight"
    using centre by (simp add: WithinRadius_def)
  have empty: "LiveLights EmptyWorld = []"
    by (simp add: LiveLights_def EmptyWorld_def DefaultSubsystem_def)
  note r = GetCombinedIntensityAt_falloff_sum [of RimWorld Origin 0 RimLight 7]
  note c = GetCombinedIntensityAt_falloff_sum [of OneLightWorld Origin 0 DefaultLight 7]
  note e = GetCombinedIntensityAt_falloff_sum [of EmptyWorld Origin 0 DefaultLight 7]
  have a1: "IntensityStep RimWorld Origin 0 7 = 7" using r rim by simp
  have a2: "GetCombinedIntensityAt RimWorld Origin = 0" using r rim by (simp add: RimWorld_simps)
  have b1: "IntensityStep OneLightWorld Origin 0 7 = 5007"
    using c centre by (simp add: DefaultLight_intensity)
  have b2: "GetCombinedIntensityAt OneLightWorld Origin = 5000"
    using c centre within
    by (simp add: OneLightWorld_live OneLightWorld_simps DefaultLight_intensity)
  have c1: "GetCombinedIntensityAt EmptyWorld Origin = 0" using e empty by simp
  from rim centre empty a1 a2 b1 b2 c1 show ?thesis by simp
qed

lemma fold_ColorStep:
  "fold (ColorStep w p) hs (c, t) =
     (\<lparr>R = R c + (\<Sum>Light\<leftarrow>filter (WithinRadius p) (List.map_filter (LightObjects w) hs).
                     R (GetCurrentColor Light) * SpecColorWeight p Light),
       G = G c + (\<Sum>Light\<leftarrow>filter (WithinRadius p) (List.map_filter (LightObjects w) hs).
                     G (GetCurrentColor Light) * SpecColorWeight p Light),
       B = B c + (\<Sum>Light\<leftarrow>filter (WithinRadius p) (List.map_filter (LightObjects w) hs).
                     B (GetCurrentColor Light) * SpecColorWeight p Light),
       A = A c + (\<Sum>Light\<leftarrow>filter (WithinRadius p) (List.map_filter (LightObjects w) hs).
                     A (GetCurrentColor Light) * SpecColorWeight p Light)\<rparr>,
      t + (\<Sum>Light\<leftarrow>filter (WithinRadius p) (List.map_filter (LightObjects w) hs).
             SpecColorWeight p Light))"
proof (induction hs arbitrary: c t)
  case Nil
  show ?case by simp
next
  case (Cons h hs)
  show ?case
  proof (cases "LightObjects w h")
    case None
    then show ?thesis using Cons.IH [of c t] by (simp add: ColorStep_def)
  next
    case (Some Light)
    show ?thesis
    proof (cases "WithinRadius p Light")
      case True
      have step: "ColorStep w p h (c, t) =
          (ColorAdd c (ColorScale (GetCurrentColor Light) (SpecColorWeight p Light)),
           t + SpecColorWeight p Light)"
        using Some True
        by (simp add: ColorStep_def WithinRadius_def SpecColorWeight_def SpecFalloff_def Let_def)
      show ?thesis using Some True
        by (simp add: step Cons.IH ColorAdd_def ColorScale_def add.assoc)
    next
      case False
      have step: "ColorStep w p h (c, t) = (c, t)"
        using Some False by (simp add: ColorStep_def WithinRadius_def Let_def)
      show ?thesis using Some False by (simp add: step Cons.IH)
    qed
  qed
qed

lemma GetCombinedColorAt_sums:
  "GetCombinedColorAt w p =
     (if 0 < SpecTotalWeight w p
      then Inr \<lparr>R = SpecWeightedSum R w p / SpecTotalWeight w p,
                G = SpecWeightedSum G w p / SpecTotalWeight w p,
                B = SpecWeightedSum B w p / SpecTotalWeight w p,
                A = (1 + SpecWeightedSum A w p) / SpecTotalWeight w p\<rparr>
      else Inr \<lparr>R = SpecWeightedSum R w p, G = SpecWeightedSum G w p,
                B = SpecWeightedSum B w p, A = 1 + SpecWeightedSum A w p\<rparr>)"
  by (simp add: GetCombinedColorAt_def fold_ColorStep ColorDivide_def Black_def
      SpecTotalWeight_def SpecWeightedSum_def LiveLights_def)

lemma sum_list_nonneg_zero:
  fixes f :: "'a \<Rightarrow> real"
  shows "(\<forall>x \<in> set xs. 0 \<le> f x) \<Longrightarrow> (\<Sum>x\<leftarrow>xs. f x) = 0 \<Longrightarrow> (\<forall>x \<in> set xs. f x = 0)"
proof (induction xs)
  case Nil
  show ?case by simp
next
  case (Cons a xs)
  have nn: "0 \<le> f a" "0 \<le> (\<Sum>x\<leftarrow>xs. f x)"
    using Cons.prems(1) by (auto intro!: sum_list_nonneg)
  with Cons.prems(2) have z: "f a = 0" "(\<Sum>x\<leftarrow>xs. f x) = 0" by simp_all
  with Cons.IH Cons.prems(1) show ?case by simp
qed

lemma sum_list_all_zero:
  fixes f g :: "'a \<Rightarrow> real"
  shows "(\<forall>x \<in> set xs. f x = 0) \<Longrightarrow> (\<Sum>x\<leftarrow>xs. g x * f x) = 0"
  by (induction xs) simp_all

lemma TwoLightWorld_live: "LiveLights TwoLightWorld = [DefaultLight, DefaultLight\<lparr>BaseColor := Red\<rparr>]"
  by (simp add: TwoLightWorld_def PlaceLight_def RegisterLight_def LiveLights_def OneLightWorld_simps
      DefaultLight_def Let_def)

lemma OpposedWorld_live:
  "LiveLights OpposedWorld = [DefaultLight, TriggerFlash 1 (-1) (DefaultLight\<lparr>BaseColor := Red\<rparr>)]"
  by (simp add: OpposedWorld_def PlaceLight_def RegisterLight_def LiveLights_def OneLightWorld_simps
      DefaultLight_def TriggerFlash_def Let_def)

lemma example_weights:
  "WithinRadius Origin DefaultLight"
  "WithinRadius Origin (DefaultLight\<lparr>BaseColor := Red\<rparr>)"
  "WithinRadius Origin (TriggerFlash 1 (-1) (DefaultLight\<lparr>BaseColor := Red\<rparr>))"
  "SpecColorWeight Origin DefaultLight = 5000"
  "SpecColorWeight Origin (DefaultLight\<lparr>BaseColor := Red\<rparr>) = 5000"
  "SpecColorWeight Origin (TriggerFlash 1 (-1) (DefaultLight\<lparr>BaseColor := Red\<rparr>)) = - 5000"
  "GetCurrentColor DefaultLight = White"
  "GetCurrentColor (DefaultLight\<lparr>BaseColor := Red\<rparr>) = Red"
  "GetCurrentColor (TriggerFlash 1 (-1) (DefaultLight\<lparr>BaseColor := Red\<rparr>)) = Red"
  by (simp_all add: WithinRadius_def SpecColorWeight_def SpecFalloff_def Dist_def Square_def
      Origin_def GetCurrentIntensity_def EvaluatePattern_def PatternValue_def Lerp_def
      GetCurrentColor_def TriggerFlash_def DefaultLight_def DefaultSettings_def)

lemma channels:
  "R White = 1" "G White = 1" "B White = 1" "A White = 1"
  "R Red = 1" "G Red = 0" "B Red = 0" "A Red = 1"
  by (simp_all add: White_def Red_def)

text \<open>
  Claim C5, as the code has it. \<^verbatim>\<open>GetCombinedColorAt\<close> never divides by zero. The weight of
  a light is \<open>(1 - distance / radius) \<times> currentIntensity\<close>, and the sums run over the live
  registered lights strictly within their radius. When the total weight is positive, the
  red, green and blue channels of the result are the weighted averages of the lights'
  current colours (the alpha channel is the weighted alpha sum plus the 1 of the opaque
  black the accumulator starts from, over the total weight). When the total weight is not
  positive, the result is the undivided sum. When the total weight is zero and no light
  in range has a negative weight, in particular when no light is in range, the result is
  black.
\<close>

theorem GetCombinedColorAt_weighted_average:
  "(\<exists>c. GetCombinedColorAt w p = Inr c)
   \<and> (0 < SpecTotalWeight w p \<longrightarrow>
        GetCombinedColorAt w p =
          Inr \<lparr>R = SpecWeightedSum R w p / SpecTotalWeight w p,
               G = SpecWeightedSum G w p / SpecTotalWeight w p,
               B = SpecWeightedSum B w p / SpecTotalWeight w p,
               A = (1 + SpecWeightedSum A w p) / SpecTotalWeight w p\<rparr>)
   \<and> (SpecTotalWeight w p \<le> 0 \<longrightarrow>
        GetCombinedColorAt w p =
          Inr \<lparr>R = SpecWeightedSum R w p, G = SpecWeightedSum G w p,
               B = SpecWeightedSum B w p, A = 1 + SpecWeightedSum A w p\<rparr>)
   \<and> (SpecTotalWeight w p = 0
       \<and> (\<forall>Light \<in> set (filter (WithinRadius p) (LiveLights w)). 0 \<le> SpecColorWeight p Light) \<longrightarrow>
        GetCombinedColorAt w p = Inr Black)"
proof -
  note sums = GetCombinedColorAt_sums [of w p]
  have a: "\<exists>c. GetCombinedColorAt w p = Inr c" using sums by (simp split: if_splits)
  have b: "0 < SpecTotalWeight w p \<longrightarrow>
        GetCombinedColorAt w p =
          Inr \<lparr>R = SpecWeightedSum R w p / SpecTotalWeight w p,
               G = SpecWeightedSum G w p / SpecTotalWeight w p,
               B = SpecWeightedSum B w p / SpecTotalWeight w p,
               A = (1 + SpecWeightedSum A w p) / SpecTotalWeight w p\<rparr>"
    using sums by simp
  have c: "SpecTotalWeight w p \<le> 0 \<longrightarrow>
        GetCombinedColorAt w p =
          Inr \<lparr>R = SpecWeightedSum R w p, G = SpecWeightedSum G w p,
               B = SpecWeightedSum B w p, A = 1 + SpecWeightedSum A w p\<rparr>"
    using sums by simp
  have d: "GetCombinedColorAt w p = Inr Black"
    if zero: "SpecTotalWeight w p = 0"
      and nn: "\<forall>Light \<in> set (filter (WithinRadius p) (LiveLights w)). 0 \<le> SpecColorWeight p Light"
  proof -
    have each: "\<forall>Light \<in> set (filter (WithinRadius p) (LiveLights w)). SpecColorWeight p Light = 0"
      using sum_list_nonneg_zero [OF nn] zero by (simp add: SpecTotalWeight_def)
    have "SpecWeightedSum ch w p = 0" for ch
      unfolding SpecWeightedSum_def by (rule sum_list_all_zero [OF each])
    then show ?thesis using sums zero by (simp add: Black_def)
  qed
  from a b c d show ?thesis by blast
qed

theorem GetCombinedColorAt_weighted_average_witness:
  "0 < SpecTotalWeight TwoLightWorld Origin
   \<and> GetCombinedColorAt TwoLightWorld Origin
       = Inr \<lparr>R = 1, G = 1 / 2, B = 1 / 2, A = 10001 / 10000\<rparr>
   \<and> SpecTotalWeight OpposedWorld Origin \<le> 0
   \<and> GetCombinedColorAt OpposedWorld Origin = Inr \<lparr>R = 0, G = 5000, B = 5000, A = 1\<rparr>
   \<and> filter (WithinRadius Origin) (LiveLights DarkWorld) = [TriggerFlash 1 0 DefaultLight]
   \<and> SpecColorWeight Origin (TriggerFlash 1 0 DefaultLight) = 0
   \<and> SpecTotalWeight DarkWorld Origin = 0
   \<and> GetCombinedColorAt DarkWorld Origin = Inr Black
   \<and> GetCombinedColorAt EmptyWorld Origin = Inr Black"
proof -
  have empty: "LiveLights EmptyWorld = []"
    by (simp add: LiveLights_def EmptyWorld_def DefaultSubsystem_def)
  have w2: "SpecTotalWeight TwoLightWorld Origin = 10000"
    "SpecWeightedSum R TwoLightWorld Origin = 10000"
    "SpecWeightedSum G TwoLightWorld Origin = 5000"
    "SpecWeightedSum B TwoLightWorld Origin = 5000"
    "SpecWeightedSum A TwoLightWorld Origin = 10000"
    by (simp_all add: SpecTotalWeight_def SpecWeightedSum_def TwoLightWorld_live example_weights
        channels)
  have w3: "SpecTotalWeight OpposedWorld Origin = 0"
    "SpecWeightedSum R OpposedWorld Origin = 0"
    "SpecWeightedSum G OpposedWorld Origin = 5000"
    "SpecWeightedSum B OpposedWorld Origin = 5000"
    "SpecWeightedSum A OpposedWorld Origin = 0"
    by (simp_all add: SpecTotalWeight_def SpecWeightedSum_def OpposedWorld_live example_weights
        channels)
  have dark: "LiveLights DarkWorld = [TriggerFlash 1 0 DefaultLight]"
    by (simp add: DarkWorld_def PlaceLight_def RegisterLight_def LiveLights_def EmptyWorld_def
        DefaultSubsystem_def DefaultLight_def TriggerFlash_def Let_def)
  have wd: "WithinRadius Origin (TriggerFlash 1 0 DefaultLight)"
    "SpecColorWeight Origin (TriggerFlash 1 0 DefaultLight) = 0"
    by (simp_all add: WithinRadius_def SpecColorWeight_def SpecFalloff_def Dist_def Square_def
        Origin_def GetCurrentIntensity_def TriggerFlash_def DefaultLight_def)
  have w4: "SpecTotalWeight DarkWorld Origin = 0"
    by (simp add: SpecTotalWeight_def dark wd)
  have w0: "SpecTotalWeight EmptyWorld Origin = 0"
    by (simp add: SpecTotalWeight_def empty)
  from GetCombinedColorAt_weighted_average [of TwoLightWorld Origin] w2
  have a: "GetCombinedColorAt TwoLightWorld Origin
             = Inr \<lparr>R = 1, G = 1 / 2, B = 1 / 2, A = 10001 / 10000\<rparr>"
    by simp
  from GetCombinedColorAt_weighted_average [of OpposedWorld Origin] w3
  have b: "GetCombinedColorAt OpposedWorld Origin = Inr \<lparr>R = 0, G = 5000, B = 5000, A = 1\<rparr>"
    by simp
  have nn: "\<forall>Light \<in> set (filter (WithinRadius Origin) (LiveLights DarkWorld)).
              0 \<le> SpecColorWeight Origin Light"
    by (simp add: dark wd)
  have c: "GetCombinedColorAt DarkWorld Origin = Inr Black"
    using GetCombinedColorAt_weighted_average [of DarkWorld Origin] w4 nn by blast
  have nn0: "\<forall>Light \<in> set (filter (WithinRadius Origin) (LiveLights EmptyWorld)).
               0 \<le> SpecColorWeight Origin Light"
    by (simp add: empty)
  have d: "GetCombinedColorAt EmptyWorld Origin = Inr Black"
    using GetCombinedColorAt_weighted_average [of EmptyWorld Origin] w0 nn0 by blast
  from a b c d w2 w3 w4 dark wd show ?thesis by simp
qed

text \<open>
  Claim C5, as stated, fails. In \<open>OpposedWorld\<close> the two lights in range have the weights
  5000 and \<open>- 5000\<close>: the total weight is zero, and the result is not black.
\<close>

theorem GetCombinedColorAt_zero_weight_not_black:
  "SpecTotalWeight OpposedWorld Origin = 0
   \<and> GetCombinedColorAt OpposedWorld Origin = Inr \<lparr>R = 0, G = 5000, B = 5000, A = 1\<rparr>
   \<and> GetCombinedColorAt OpposedWorld Origin \<noteq> Inr Black"
  by (simp add: GetCombinedColorAt_sums SpecTotalWeight_def SpecWeightedSum_def OpposedWorld_live
      example_weights channels Black_def)


section \<open>The stand-alone evaluator and the table\<close>





lemma Fire_component:
  "PatternValue (SetPattern Fire DefaultLight) (10 * pi / 21 * 1) = SpecPatternTable Fire (10 * pi / 21 * 1)"
  by (simp add: PatternValue_def SetPattern_def DefaultLight_def DefaultSettings_def SpecPatternTable_def mult_ac)



section \<open>The range of the configured pattern value\<close>

lemma RoundedLerp_between:
  assumes m: "mono rnd" and z: "rnd 0 = 0" and fa: "rnd a = a" and v: "0 \<le> v" "v \<le> 1"
  shows "RoundedLerp rnd a b 0 = a
         \<and> min a (RoundedLerp rnd a b 1) \<le> RoundedLerp rnd a b v
         \<and> RoundedLerp rnd a b v \<le> max a (RoundedLerp rnd a b 1)"
proof -
  define d where "d = rnd (b - a)"
  have at0: "RoundedLerp rnd a b 0 = a" by (simp add: RoundedLerp_def z fa)
  have at1: "RoundedLerp rnd a b 1 = rnd (a + rnd d)" by (simp add: RoundedLerp_def d_def)
  have atv: "RoundedLerp rnd a b v = rnd (a + rnd (v * d))" by (simp add: RoundedLerp_def d_def)
  show ?thesis
  proof (cases "0 \<le> d")
    case True
    have lo: "0 \<le> v * d" using v True by simp
    have hi: "v * d \<le> d" using v True by (simp add: mult_left_le_one_le)
    have "0 \<le> rnd (v * d)" using monoD [OF m lo] z by simp
    then have "a \<le> a + rnd (v * d)" by simp
    then have l: "a \<le> rnd (a + rnd (v * d))" using monoD [OF m, of a "a + rnd (v * d)"] fa by simp
    have "a + rnd (v * d) \<le> a + rnd d" using monoD [OF m hi] by simp
    then have u: "rnd (a + rnd (v * d)) \<le> rnd (a + rnd d)" by (rule monoD [OF m])
    from l u show ?thesis unfolding at1 atv using at0 by simp
  next
    case False
    then have neg: "d \<le> 0" by simp
    have hi: "v * d \<le> 0" using v neg by (simp add: mult_nonneg_nonpos)
    have "v * (- d) \<le> 1 * (- d)" using v neg by (intro mult_right_mono) simp_all
    then have lo: "d \<le> v * d" by simp
    have "rnd (v * d) \<le> 0" using monoD [OF m hi] z by simp
    then have "a + rnd (v * d) \<le> a" by simp
    then have u: "rnd (a + rnd (v * d)) \<le> a" using monoD [OF m, of "a + rnd (v * d)" a] fa by simp
    have "a + rnd d \<le> a + rnd (v * d)" using monoD [OF m lo] by simp
    then have l: "rnd (a + rnd d) \<le> rnd (a + rnd (v * d))" by (rule monoD [OF m])
    from l u show ?thesis unfolding at1 atv using at0 by simp
  qed
qed

lemma RoundedLerp_exact: "RoundedLerp (\<lambda>x. x) a b v = Lerp a b v"
  by (simp add: RoundedLerp_def Lerp_def)

lemma mono_RoundToEighths: "mono RoundToEighths"
proof (rule monoI)
  fix x y :: real
  assume "x \<le> y"
  then have "round (x * 8) \<le> round (y * 8)" by (intro round_mono) simp
  then show "RoundToEighths x \<le> RoundToEighths y"
    by (simp add: RoundToEighths_def divide_right_mono)
qed

lemma RoundToEighths_values:
  "RoundToEighths 0 = 0" "RoundToEighths (3 / 4) = 3 / 4"
  "RoundedLerp RoundToEighths (3 / 4) (3 / 10) (1 / 2) = 1 / 2"
  "RoundedLerp RoundToEighths (3 / 4) (3 / 10) 1 = 1 / 4"
  by (simp_all add: RoundedLerp_def RoundToEighths_def round_def)

lemma sin2_bounds: "- 1 \<le> sin a * sin b \<and> sin a * sin b \<le> (1::real)"
proof -
  have "\<bar>sin a * sin b\<bar> \<le> 1 * 1"
    unfolding abs_mult by (intro mult_mono) simp_all
  then show ?thesis by (simp add: abs_le_iff)
qed

lemma sin3_bounds: "- 1 \<le> sin a * sin b * sin c \<and> sin a * sin b * sin c \<le> (1::real)"
proof -
  have "\<bar>sin a * sin b\<bar> \<le> 1" using sin2_bounds [of a b] by (simp add: abs_le_iff)
  then have "\<bar>sin a * sin b * sin c\<bar> \<le> 1 * 1"
    unfolding abs_mult [of "sin a * sin b"] by (intro mult_mono) simp_all
  then show ?thesis by (simp add: abs_le_iff)
qed

lemma sin_even_power_bounds: "0 \<le> sin a ^ 12 \<and> sin a ^ 12 \<le> (1::real)"
proof -
  have "sin a ^ 12 = \<bar>sin a\<bar> ^ 12" by (simp add: power_even_abs)
  moreover have "\<bar>sin a\<bar> ^ 12 \<le> 1" by (rule power_le_one) simp_all
  moreover have "0 \<le> \<bar>sin a\<bar> ^ 12" by simp
  ultimately show ?thesis by simp
qed

lemma affine_unit:
  fixes x :: real
  assumes "- 1 \<le> x \<and> x \<le> 1" and "0 \<le> c" and "c \<le> 1 / 2"
  shows "0 \<le> (1 - c) + c * x \<and> (1 - c) + c * x \<le> 1"
proof -
  have "c * x \<le> c * 1" using assms by (intro mult_left_mono) simp_all
  moreover have "c * (- 1) \<le> c * x" using assms by (intro mult_left_mono) simp_all
  ultimately show ?thesis using assms(3) by simp
qed

lemma sin_bounds: "- 1 \<le> sin a \<and> sin a \<le> (1::real)"
  by simp

lemma PatternValue_unit:
  assumes "Pattern (PatternSettings l) \<noteq> Fluorescent"
    and "Pattern (PatternSettings l) = Custom \<longrightarrow>
           (case CustomCurve (PatternSettings l) of
              None \<Rightarrow> True
            | Some curve \<Rightarrow>
                0 \<le> GetFloatValue curve (Fmod T (FloatTimeRangeY curve))
                \<and> GetFloatValue curve (Fmod T (FloatTimeRangeY curve)) \<le> 1)"
  shows "0 \<le> PatternValue l T \<and> PatternValue l T \<le> 1"
proof (cases "Pattern (PatternSettings l)")
  case Steady
  then show ?thesis by (simp add: PatternValue_def)
next
  case Pulse
  then show ?thesis using affine_unit [OF sin_bounds, of "0.5" "T * 2 * pi"]
    by (simp add: PatternValue_def)
next
  case Flicker
  then show ?thesis using affine_unit [OF sin2_bounds, of "0.3" "T * 20" "T * 7.3"]
    by (simp add: PatternValue_def mult.assoc)
next
  case Strobe
  then show ?thesis by (simp add: PatternValue_def)
next
  case Candle
  then show ?thesis using affine_unit [OF sin3_bounds, of "0.2" "T * 12" "T * 5.7" "T * 3.1"]
    by (simp add: PatternValue_def Let_def mult.assoc)
next
  case Fluorescent
  then show ?thesis using assms(1) by simp
next
  case Lightning
  have "0 \<le> max 0 (sin (T * 0.5))" "max 0 (sin (T * 0.5)) \<le> 1" by simp_all
  then have "0 \<le> max 0 (sin (T * 0.5)) ^ 20" "max 0 (sin (T * 0.5)) ^ 20 \<le> 1"
    by (simp_all add: power_le_one)
  then show ?thesis using Lightning by (simp add: PatternValue_def)
next
  case Fire
  then show ?thesis using affine_unit [OF sin3_bounds, of "0.3" "T * 8" "T * 4.3" "T * 2.1"]
    by (simp add: PatternValue_def mult.assoc)
next
  case Alarm
  then show ?thesis by (simp add: PatternValue_def)
next
  case Underwater
  then show ?thesis
    using affine_unit [OF sin2_bounds, of "0.3" "X (ComponentLocation l) * 0.01 + T"
        "Y (ComponentLocation l) * 0.01 + T * 0.7"]
    by (simp add: PatternValue_def Let_def mult.assoc)
next
  case Heartbeat
  define Beat where "Beat = sin (T * 2.5) ^ 12"
  define Beat2 where "Beat2 = sin (T * 2.5 + 0.3) ^ 12 * 0.5"
  have "0 \<le> Beat" "Beat \<le> 1"
    using sin_even_power_bounds [of "T * 2.5"] by (simp_all add: Beat_def)
  moreover have "0 \<le> Beat2" "Beat2 \<le> 1"
    using sin_even_power_bounds [of "T * 2.5 + 0.3"] by (simp_all add: Beat2_def)
  ultimately have "0 \<le> max Beat Beat2 \<and> max Beat Beat2 \<le> 1" by (simp add: max_def)
  moreover have "PatternValue l T = max Beat Beat2"
    using Heartbeat by (simp add: PatternValue_def Let_def Beat_def Beat2_def)
  ultimately show ?thesis by simp
next
  case Breathing
  then show ?thesis using affine_unit [OF sin_bounds, of "0.35" "T * 0.5"]
    by (simp add: PatternValue_def algebra_simps)
next
  case Custom
  then show ?thesis using assms(2)
    by (simp add: PatternValue_def Let_def split: option.splits)
qed

lemma Clamp_unit: "0 \<le> Clamp x 0 1 \<and> Clamp x 0 1 \<le> 1"
  by (simp add: Clamp_def)

lemma PatternValue_Fluorescent_eq:
  "Pattern (PatternSettings l) = Fluorescent \<Longrightarrow>
     PatternValue l T
       = Clamp (Fmod T 5 / 2) 0 1 + 0.05 * sin (T * 120) * Clamp (Fmod T 5 / 2) 0 1"
  by (simp add: PatternValue_def Let_def)

lemma PatternValue_Fluorescent:
  assumes "Pattern (PatternSettings l) = Fluorescent"
  shows "0 \<le> PatternValue l T \<and> PatternValue l T \<le> 1.05"
proof -
  define s where "s = Clamp (Fmod T 5 / 2) 0 1"
  define b where "b = 0.05 * sin (T * 120)"
  have s: "0 \<le> s" "s \<le> 1" using Clamp_unit [of "Fmod T 5 / 2"] by (simp_all add: s_def)
  have b: "- 0.05 \<le> b" "b \<le> 0.05"
    using sin_ge_minus_one [of "T * 120"] sin_le_one [of "T * 120"] by (simp_all add: b_def)
  have v: "PatternValue l T = s * (1 + b)"
    using assms by (simp add: PatternValue_def Let_def s_def b_def algebra_simps)
  have "0 \<le> s * (1 + b)" using s b by simp
  moreover have "s * (1 + b) \<le> 1 * 1.05" using s b by (intro mult_mono) simp_all
  ultimately show ?thesis using v by simp
qed

lemma Fmod_small: "0 \<le> x \<Longrightarrow> x < y \<Longrightarrow> 1 \<le> y \<Longrightarrow> Fmod x y = x"
proof -
  assume a: "0 \<le> x" "x < y" "1 \<le> y"
  then have "0 \<le> x / y" "x / y < 1" by simp_all
  then have "\<lfloor>x / y\<rfloor> = 0" by (simp add: floor_eq_iff)
  then have "Trunc (x / y) = 0" using \<open>0 \<le> x / y\<close> by (simp add: Trunc_def)
  moreover have "\<not> \<bar>y\<bar> \<le> 1 / 10 ^ 8" using a(3) by simp
  ultimately show ?thesis by (simp add: Fmod_def)
qed

lemma sin_241: "sin (241 * pi / 240 * 120) = 1"
proof -
  have "241 * pi / 240 * 120 = real (Suc (2 * 120)) * pi / 2" by simp
  then have "sin (241 * pi / 240 * 120) = (- 1) ^ 120" by (simp only: sin_cos_npi)
  then show ?thesis by simp
qed

text \<open>
  Claim C3, as the code has it. The configured value is \<open>lerp(minIntensity, maxIntensity,
  raw)\<close>. For every configuration, also with the minimum intensity above the maximum, and
  every time: whenever the raw value lies in [0, 1], the configured value lies between
  the two ends of the interpolation, \<open>lerp(min, max, 0) = minIntensity\<close> and
  \<open>lerp(min, max, 1)\<close>. The same holds of the interpolation with its three roundings, for
  every monotone rounding function that leaves 0 and the minimum intensity unchanged; its
  upper end \<open>lerp(min, max, 1)\<close> is the maximum intensity only up to rounding. The raw
  value lies in [0, 1] for every pattern kind other than Fluorescent, where for Custom
  with a curve the curve's value at the sampled time is taken to lie in [0, 1]. For
  Fluorescent the raw value lies in [0, 1.05].
\<close>

theorem EvaluatePattern_within_range:
  "(0 \<le> PatternValue l T \<and> PatternValue l T \<le> 1 \<longrightarrow>
      min (MinIntensity (PatternSettings l))
          (Lerp (MinIntensity (PatternSettings l)) (MaxIntensity (PatternSettings l)) 1)
        \<le> EvaluatePattern l T
      \<and> EvaluatePattern l T
        \<le> max (MinIntensity (PatternSettings l))
              (Lerp (MinIntensity (PatternSettings l)) (MaxIntensity (PatternSettings l)) 1))
   \<and> EvaluatePattern l T
       = Lerp (MinIntensity (PatternSettings l)) (MaxIntensity (PatternSettings l))
           (PatternValue l T)
   \<and> (mono rnd \<and> rnd 0 = 0 \<and> rnd a = a \<and> 0 \<le> v \<and> v \<le> 1 \<longrightarrow>
        RoundedLerp rnd a b 0 = a
        \<and> min a (RoundedLerp rnd a b 1) \<le> RoundedLerp rnd a b v
        \<and> RoundedLerp rnd a b v \<le> max a (RoundedLerp rnd a b 1))
   \<and> (Pattern (PatternSettings l) \<noteq> Fluorescent
       \<and> (Pattern (PatternSettings l) = Custom \<longrightarrow>
            (case CustomCurve (PatternSettings l) of
               None \<Rightarrow> True
             | Some curve \<Rightarrow>
                 0 \<le> GetFloatValue curve (Fmod T (FloatTimeRangeY curve))
                 \<and> GetFloatValue curve (Fmod T (FloatTimeRangeY curve)) \<le> 1)) \<longrightarrow>
      0 \<le> PatternValue l T \<and> PatternValue l T \<le> 1)
   \<and> (Pattern (PatternSettings l) = Fluorescent \<longrightarrow>
        0 \<le> PatternValue l T \<and> PatternValue l T \<le> 1.05)"
proof -
  let ?a = "MinIntensity (PatternSettings l)" and ?b = "MaxIntensity (PatternSettings l)"
  have exact: "EvaluatePattern l T = Lerp ?a ?b (PatternValue l T)"
    by (simp add: EvaluatePattern_def)
  have rounded: "mono rnd \<and> rnd 0 = 0 \<and> rnd a = a \<and> 0 \<le> v \<and> v \<le> 1 \<longrightarrow>
        RoundedLerp rnd a b 0 = a
        \<and> min a (RoundedLerp rnd a b 1) \<le> RoundedLerp rnd a b v
        \<and> RoundedLerp rnd a b v \<le> max a (RoundedLerp rnd a b 1)"
    using RoundedLerp_between [of rnd a v b] by blast
  have id: "mono (\<lambda>x::real. x)" by (simp add: mono_def)
  have range: "0 \<le> PatternValue l T \<and> PatternValue l T \<le> 1 \<longrightarrow>
      min ?a (Lerp ?a ?b 1) \<le> EvaluatePattern l T
      \<and> EvaluatePattern l T \<le> max ?a (Lerp ?a ?b 1)"
    using RoundedLerp_between [OF id, of ?a "PatternValue l T" ?b]
    by (simp add: RoundedLerp_exact EvaluatePattern_def)
  from exact rounded range PatternValue_unit [of l T] PatternValue_Fluorescent [of l T]
  show ?thesis by blast
qed

theorem EvaluatePattern_within_range_witness:
  "PatternValue ExactPulse 0 = 1 / 2
   \<and> MaxIntensity (PatternSettings ExactPulse) < MinIntensity (PatternSettings ExactPulse)
   \<and> EvaluatePattern ExactPulse 0 = 1 / 2
   \<and> 1 / 4 \<le> EvaluatePattern ExactPulse (1 / 8)
   \<and> EvaluatePattern ExactPulse (1 / 8) \<le> 3 / 4
   \<and> mono RoundToEighths \<and> RoundToEighths 0 = 0 \<and> RoundToEighths (3 / 4) = 3 / 4
   \<and> RoundedLerp RoundToEighths (3 / 4) (3 / 10) (1 / 2) = 1 / 2
   \<and> RoundedLerp RoundToEighths (3 / 4) (3 / 10) 1 = 1 / 4
   \<and> 1 / 4 \<le> RoundedLerp RoundToEighths (3 / 4) (3 / 10) (1 / 3)
   \<and> RoundedLerp RoundToEighths (3 / 4) (3 / 10) (1 / 3) \<le> 3 / 4
   \<and> Pattern (PatternSettings (SetPattern Fluorescent DefaultLight)) = Fluorescent
   \<and> PatternValue (SetPattern Fluorescent DefaultLight) 7 \<le> 105 / 100"
proof -
  have k: "Pattern (PatternSettings ExactPulse) = Pulse"
    "MinIntensity (PatternSettings ExactPulse) = 3 / 4"
    "MaxIntensity (PatternSettings ExactPulse) = 1 / 4"
    by (simp_all add: ExactPulse_def DefaultSettings_def)
  have v: "PatternValue ExactPulse 0 = 1 / 2" "EvaluatePattern ExactPulse 0 = 1 / 2"
    by (simp_all add: EvaluatePattern_def PatternValue_def k Lerp_def)
  have f: "Pattern (PatternSettings (SetPattern Fluorescent DefaultLight)) = Fluorescent"
    by (simp add: SetPattern_def)
  note p = EvaluatePattern_within_range [of ExactPulse "1 / 8" RoundToEighths "3 / 4" "1 / 3" "3 / 10"]
  note range = conjunct1 [OF p]
  note rounded = conjunct1 [OF conjunct2 [OF conjunct2 [OF p]]]
  note unit = conjunct1 [OF conjunct2 [OF conjunct2 [OF conjunct2 [OF p]]]]
  have raw: "0 \<le> PatternValue ExactPulse (1 / 8) \<and> PatternValue ExactPulse (1 / 8) \<le> 1"
    using unit k by simp
  have a: "1 / 4 \<le> EvaluatePattern ExactPulse (1 / 8) \<and> EvaluatePattern ExactPulse (1 / 8) \<le> 3 / 4"
    using range raw k by (simp add: Lerp_def)
  have r: "1 / 4 \<le> RoundedLerp RoundToEighths (3 / 4) (3 / 10) (1 / 3)
           \<and> RoundedLerp RoundToEighths (3 / 4) (3 / 10) (1 / 3) \<le> 3 / 4"
    using rounded mono_RoundToEighths RoundToEighths_values by simp
  note q = EvaluatePattern_within_range [of "SetPattern Fluorescent DefaultLight" 7 RoundToEighths "3 / 4" "1 / 3" "3 / 10"]
  have b: "PatternValue (SetPattern Fluorescent DefaultLight) 7 \<le> 105 / 100"
    using conjunct2 [OF conjunct2 [OF conjunct2 [OF conjunct2 [OF q]]]] f by simp
  from k v f a r b mono_RoundToEighths RoundToEighths_values show ?thesis by simp
qed

text \<open>
  Claim C3, as stated, fails. For the default light switched to Fluorescent (minimum 0,
  maximum 1) at \<open>t = 241\<pi>/240\<close> the start-up factor is 1 and \<open>sin(120 t) = 1\<close>: the
  configured value is 1.05, above the maximum.
\<close>

theorem Fluorescent_exceeds_range:
  "EvaluatePattern (SetPattern Fluorescent DefaultLight) (241 * pi / 240) = 105 / 100
   \<and> \<not> EvaluatePattern (SetPattern Fluorescent DefaultLight) (241 * pi / 240)
         \<le> max (MinIntensity (PatternSettings (SetPattern Fluorescent DefaultLight)))
               (MaxIntensity (PatternSettings (SetPattern Fluorescent DefaultLight)))"
proof -
  have lo: "2 \<le> pi" by (rule pi_ge_two)
  have hi: "pi < 4" by (rule pi_less_4)
  have m: "Fmod (241 * pi / 240) 5 = 241 * pi / 240"
    using lo hi by (intro Fmod_small) simp_all
  have c: "Clamp (241 * pi / 240 / 2) 0 1 = 1" using lo by (simp add: Clamp_def)
  have "PatternValue (SetPattern Fluorescent DefaultLight) (241 * pi / 240)
          = Clamp (Fmod (241 * pi / 240) 5 / 2) 0 1
            + 0.05 * sin (241 * pi / 240 * 120) * Clamp (Fmod (241 * pi / 240) 5 / 2) 0 1"
    by (rule PatternValue_Fluorescent_eq) (simp add: SetPattern_def)
  then have v: "PatternValue (SetPattern Fluorescent DefaultLight) (241 * pi / 240) = 1 + 0.05 * 1 * 1"
    by (simp only: m c sin_241)
  have e: "EvaluatePattern (SetPattern Fluorescent DefaultLight) (241 * pi / 240) = 105 / 100"
    unfolding EvaluatePattern_def v by (simp add: Lerp_def SetPattern_def DefaultLight_def DefaultSettings_def)
  then show ?thesis by (simp add: SetPattern_def DefaultLight_def DefaultSettings_def)
qed

end
